theory Spec2Isabelle
  imports Main
begin

section \<open>Notification settings manager (sentry/notifications/manager.py)\<close>

text \<open>
  The development embeds \<^verbatim>\<open>NotificationsManager\<close>: the three tables it reads and
  writes are lists of rows inside one store, every method takes the store and
  returns the new one, and every \<^verbatim>\<open>raise\<close> and failed \<^verbatim>\<open>assert\<close> is an error value
  returned together with the store as it stands at that moment.
\<close>

subsection \<open>Enumerations\<close>

text \<open>
  Modelled from the spec: the members of \<^verbatim>\<open>NotificationSettingOptionValues\<close>. The class
  is declared in sentry/notifications/types.py, which is not part of the sources at
  hand; the manager names \<^verbatim>\<open>DEFAULT\<close> and \<^verbatim>\<open>NEVER\<close>, the data model of the
  specification lists all five. A column holds the \<^verbatim>\<open>.value\<close> of a member; since two
  members of a Python enumeration never share a value, the rows below hold the
  member itself.
\<close>

datatype NotificationSettingOptionValues =
  DEFAULT | NEVER | ALWAYS | SUBSCRIBE_ONLY | COMMITTED_ONLY

datatype NotificationScopeType = USER | ORGANIZATION | PROJECT | TEAM

datatype ActorType = ActorType_USER | ActorType_TEAM

text \<open>
  The string-valued enumerations of the projection table; only the members the
  manager writes are needed.
\<close>

datatype NotificationScopeEnum = ScopeEnum_USER | ScopeEnum_TEAM

datatype NotificationSettingsOptionEnum = OptionEnum_ALWAYS | OptionEnum_NEVER

text \<open>
  The exceptions of the manager. \<open>AssertionError\<close> is a failed \<^verbatim>\<open>assert\<close>;
  \<open>UnboundLocalError\<close> is what \<^verbatim>\<open>assert actor_type\<close> raises in \<^verbatim>\<open>update_settings\<close>
  when neither branch has assigned the variable; \<open>InvalidValueForTypeError\<close> is the
  bare \<^verbatim>\<open>Exception("value ... is not valid for type ...")\<close>; \<open>KeyError\<close> is a
  failed lookup in one of the translation tables; \<open>MultipleObjectsReturned\<close> is
  raised by \<^verbatim>\<open>get_or_create\<close>; \<open>InvalidScopeError\<close> is raised by the scope
  resolver.
\<close>

datatype error =
  AssertionError | UnboundLocalError | InvalidScopeError
  | InvalidValueForTypeError | KeyError | MultipleObjectsReturned

subsection \<open>Rows, tables and the store\<close>

text \<open>
  \<^verbatim>\<open>NotificationSetting\<close>, the table of the manager itself. The members of
  \<^verbatim>\<open>ExternalProviders\<close> and \<^verbatim>\<open>NotificationSettingTypes\<close> are declared outside the
  sources at hand, so the development is polymorphic in them: \<open>'p\<close> is the type of
  providers, \<open>'t\<close> the type of alert types. Columns carry the prefix \<open>ns_\<close>;
  \<open>ns_id\<close> is the primary key.
\<close>

record ('p, 't) NotificationSetting =
  ns_id :: int
  ns_provider :: 'p
  ns_type :: 't
  ns_scope_type :: NotificationScopeType
  ns_scope_identifier :: int
  ns_user_id :: "int option"
  ns_team_id :: "int option"
  ns_value :: NotificationSettingOptionValues

text \<open>\<^verbatim>\<open>NotificationSettingOption\<close>, the table of the double write (prefix \<open>nso_\<close>).\<close>

record NotificationSettingOption =
  nso_type :: string
  nso_scope_type :: string
  nso_scope_identifier :: int
  nso_user_id :: "int option"
  nso_team_id :: "int option"
  nso_value :: string

text \<open>\<^verbatim>\<open>NotificationSettingProvider\<close>, the projection table (prefix \<open>nsp_\<close>).\<close>

record NotificationSettingProvider =
  nsp_provider :: string
  nsp_type :: string
  nsp_scope_type :: NotificationScopeEnum
  nsp_scope_identifier :: int
  nsp_user_id :: "int option"
  nsp_team_id :: "int option"
  nsp_value :: NotificationSettingsOptionEnum

text \<open>
  An analytics event \<^verbatim>\<open>notifications.settings_updated\<close>: its \<^verbatim>\<open>target_type\<close> and
  \<^verbatim>\<open>id\<close>.
\<close>

type_synonym event = "string \<times> int"

text \<open>
  The store: each table in the order in which the database returns its rows, and
  the log of recorded analytics events.
\<close>

record ('p, 't) store =
  settings :: "('p, 't) NotificationSetting list"
  options :: "NotificationSettingOption list"
  providers :: "NotificationSettingProvider list"
  analytics :: "event list"

text \<open>
  The translation tables and helpers the manager imports. Their declarations are
  outside the sources at hand, so they are parameters of the development. A
  dictionary is a partial map and a missing key raises \<open>KeyError\<close>.
  \<open>VALID_VALUES_FOR_KEY_V2\<close> is kept as the list of its items in iteration
  order. \<open>get_scope_type\<close> returns the error where the helper raises. \<open>str_type\<close>
  is the text a character column is compared with when a query is given a member
  of \<^verbatim>\<open>NotificationSettingTypes\<close>. \<open>ISSUE_ALERTS_setting\<close> is the value of
  \<^verbatim>\<open>NotificationSettingEnum.ISSUE_ALERTS\<close>. \<open>default_policy\<close> is the external
  opt-in policy: whether an alert type, by its name, is delivered through a provider
  when no setting is stored.
\<close>

record ('p, 't) tables =
  EXTERNAL_PROVIDERS :: "'p \<rightharpoonup> string"
  PERSONAL_NOTIFICATION_PROVIDERS :: "string list"
  VALID_VALUES_FOR_KEY_V2 :: "('t \<times> NotificationSettingOptionValues list) list"
  NOTIFICATION_SETTING_TYPES :: "'t \<rightharpoonup> string"
  NOTIFICATION_SCOPE_TYPE :: "NotificationScopeType \<rightharpoonup> string"
  NOTIFICATION_SETTING_OPTION_VALUES :: "NotificationSettingOptionValues \<rightharpoonup> string"
  get_scope_type :: "'t \<Rightarrow> error + NotificationScopeType"
  str_type :: "'t \<Rightarrow> string"
  ISSUE_ALERTS_setting :: string
  default_policy :: "string \<Rightarrow> 'p \<Rightarrow> bool"

subsection \<open>Python truthiness\<close>

text \<open>
  \<^verbatim>\<open>if x:\<close> on an \<^verbatim>\<open>int | None\<close> holds for a number other than zero; on a
  collection or \<^verbatim>\<open>None\<close> it holds for a collection that is not empty; on a member
  of an enumeration or \<^verbatim>\<open>None\<close> it holds for every member.
\<close>

definition truthy :: "int option \<Rightarrow> bool" where
  "truthy x = (case x of None \<Rightarrow> False | Some n \<Rightarrow> n \<noteq> 0)"

definition truthy_ids :: "int list option \<Rightarrow> bool" where
  "truthy_ids xs = (case xs of None \<Rightarrow> False | Some ys \<Rightarrow> ys \<noteq> [])"

text \<open>\<^verbatim>\<open>column__in=ids if ids else []\<close>: a null column is in no list.\<close>

definition column_in :: "int option \<Rightarrow> int list option \<Rightarrow> bool" where
  "column_in c xs =
     (case c of None \<Rightarrow> False
      | Some n \<Rightarrow> (case xs of None \<Rightarrow> False | Some ys \<Rightarrow> n \<in> set ys))"

subsection \<open>Queries on the settings table\<close>

text \<open>
  A \<^verbatim>\<open>QuerySet\<close> is lazy: it is the condition of the query. \<^verbatim>\<open>list(qs)\<close> selects the
  rows that satisfy it, in table order, and \<^verbatim>\<open>qs.delete()\<close> removes them.
\<close>

type_synonym ('p, 't) QuerySet = "('p, 't) NotificationSetting \<Rightarrow> bool"

definition qs_list :: "('p, 't) QuerySet \<Rightarrow> ('p, 't) store \<Rightarrow> ('p, 't) NotificationSetting list" where
  "qs_list q s = filter q (settings s)"

definition qs_delete :: "('p, 't) QuerySet \<Rightarrow> ('p, 't) store \<Rightarrow> ('p, 't) store" where
  "qs_delete q s = s\<lparr>settings := filter (\<lambda>r. \<not> q r) (settings s)\<rparr>"

text \<open>\<^verbatim>\<open>self.none()\<close>\<close>

definition qs_none :: "('p, 't) QuerySet" where
  "qs_none = (\<lambda>r. False)"

text \<open>\<^verbatim>\<open>_filter\<close>: every argument that is falsy adds no condition.\<close>

definition p_filter ::
  "'p option \<Rightarrow> 't option \<Rightarrow> NotificationScopeType option \<Rightarrow> int option
     \<Rightarrow> int list option \<Rightarrow> int list option \<Rightarrow> ('p, 't) QuerySet" where
  "p_filter provider type scope_type scope_identifier user_ids team_ids = (\<lambda>r.
     (case provider of None \<Rightarrow> True | Some p \<Rightarrow> ns_provider r = p)
     \<and> (case type of None \<Rightarrow> True | Some t \<Rightarrow> ns_type r = t)
     \<and> (case scope_type of None \<Rightarrow> True | Some st \<Rightarrow> ns_scope_type r = st)
     \<and> (if truthy scope_identifier then Some (ns_scope_identifier r) = scope_identifier
         else True)
     \<and> (if truthy_ids team_ids \<or> truthy_ids user_ids
         then column_in (ns_team_id r) team_ids \<or> column_in (ns_user_id r) user_ids
         else True))"

definition remove_for_user :: "int \<Rightarrow> 't option \<Rightarrow> ('p, 't) store \<Rightarrow> ('p, 't) store" where
  "remove_for_user user type s = qs_delete (p_filter None type None None (Some [user]) None) s"

definition remove_for_project :: "int \<Rightarrow> 't option \<Rightarrow> ('p, 't) store \<Rightarrow> ('p, 't) store" where
  "remove_for_project project_id type s =
     qs_delete (p_filter None type (Some PROJECT) (Some project_id) None None) s"

definition remove_for_organization :: "int \<Rightarrow> 't option \<Rightarrow> ('p, 't) store \<Rightarrow> ('p, 't) store" where
  "remove_for_organization organization_id type s =
     qs_delete (p_filter None type (Some ORGANIZATION) (Some organization_id) None None) s"

subsection \<open>The scope resolver\<close>

text \<open>
  Modelled from the spec: \<^verbatim>\<open>get_scope\<close> of sentry/notifications/helpers.py, which is
  not part of the sources at hand. Section 4.1 of the specification: the resolver
  maps (team, user, project, organization) to a scope type and identifier; it fails
  with \<^verbatim>\<open>InvalidScopeError\<close> if both team and user are given, or neither; if neither
  project nor organization is given the scope is the recipient's own (\<open>TEAM\<close> or
  \<open>USER\<close> with the recipient's id). The project, the most specific scope of the
  hierarchy, is looked at before the organization. A project or organization is
  given as its id.
\<close>

definition scope_under_parent ::
  "int option \<Rightarrow> int option \<Rightarrow> NotificationScopeType \<times> int \<Rightarrow> NotificationScopeType \<times> int" where
  "scope_under_parent project organization own =
     (case project of Some p \<Rightarrow> (PROJECT, p)
      | None \<Rightarrow> (case organization of Some org \<Rightarrow> (ORGANIZATION, org) | None \<Rightarrow> own))"

definition get_scope ::
  "int option \<Rightarrow> int option \<Rightarrow> int option \<Rightarrow> int option
     \<Rightarrow> error + NotificationScopeType \<times> int" where
  "get_scope team user project organization =
     (case team of
        Some t \<Rightarrow> (case user of
                     Some u \<Rightarrow> Inl InvalidScopeError
                   | None \<Rightarrow> Inr (scope_under_parent project organization (TEAM, t)))
      | None \<Rightarrow> (case user of
                   Some u \<Rightarrow> Inr (scope_under_parent project organization (USER, u))
                 | None \<Rightarrow> Inl InvalidScopeError))"

subsection \<open>Reading one setting\<close>

text \<open>\<^verbatim>\<open>if team_id: team_ids.add(team_id)\<close> on an empty set.\<close>

definition add_if_truthy :: "int option \<Rightarrow> int list" where
  "add_if_truthy x = (case x of None \<Rightarrow> [] | Some n \<Rightarrow> if n \<noteq> 0 then [n] else [])"

definition find_settings ::
  "'p \<Rightarrow> 't \<Rightarrow> int option \<Rightarrow> int option \<Rightarrow> int option \<Rightarrow> int option
     \<Rightarrow> error + ('p, 't) QuerySet" where
  "find_settings provider type user_id team_id project organization =
     (let team_ids = add_if_truthy team_id;
          user_ids = add_if_truthy user_id
      in if \<not> ((team_ids \<noteq> [] \<and> user_ids = []) \<or> (user_ids \<noteq> [] \<and> team_ids = []))
         then Inl AssertionError
         else (case get_scope team_id user_id project organization of
                 Inl e \<Rightarrow> Inl e
               | Inr (scope_type, scope_identifier) \<Rightarrow>
                   if \<not> ((length team_ids = 1 \<and> length user_ids = 0)
                          \<or> (length team_ids = 0 \<and> length user_ids = 1))
                   then Inl AssertionError
                   else Inr (p_filter (Some provider) (Some type) (Some scope_type)
                               (Some scope_identifier) (Some user_ids) (Some team_ids))))"

definition get_settings ::
  "'p \<Rightarrow> 't \<Rightarrow> int option \<Rightarrow> int option \<Rightarrow> int option \<Rightarrow> int option
     \<Rightarrow> ('p, 't) store \<Rightarrow> error + NotificationSettingOptionValues" where
  "get_settings provider type user_id team_id project organization s =
     (case find_settings provider type user_id team_id project organization of
        Inl e \<Rightarrow> Inl e
      | Inr q \<Rightarrow> (case take 1 (qs_list q s) of
                    [] \<Rightarrow> Inr DEFAULT
                  | setting # _ \<Rightarrow> Inr (ns_value setting)))"

subsection \<open>Sequencing of operations that may raise\<close>

text \<open>
  An operation on the store returns the exception it raised, if any, and the store
  as it is when the operation ends: what was written before a \<^verbatim>\<open>raise\<close> stays
  written.
\<close>

type_synonym ('p, 't) outcome = "error option \<times> ('p, 't) store"

definition and_then ::
  "('p, 't) outcome \<Rightarrow> (('p, 't) store \<Rightarrow> ('p, 't) outcome) \<Rightarrow> ('p, 't) outcome" where
  "and_then r f = (case r of (None, s) \<Rightarrow> f s | (Some e, s) \<Rightarrow> (Some e, s))"

subsection \<open>Removing one setting\<close>

text \<open>
  \<^verbatim>\<open>remove_settings\<close>. A \<^verbatim>\<open>User\<close> object is given as its id; the argument
  \<^verbatim>\<open>organization_id_for_team\<close> is never read and is left out. The option rows are
  deleted before \<^verbatim>\<open>find_settings\<close> checks the recipient.
\<close>

definition remove_settings ::
  "('p, 't) tables \<Rightarrow> 'p \<Rightarrow> 't \<Rightarrow> int option \<Rightarrow> int option \<Rightarrow> int option \<Rightarrow> int option
     \<Rightarrow> int option \<Rightarrow> ('p, 't) store \<Rightarrow> ('p, 't) outcome" where
  "remove_settings cfg provider type user user_id team_id project organization s =
     (let user_id = (case user of Some u \<Rightarrow> Some u | None \<Rightarrow> user_id)
      in case get_scope team_id user_id project organization of
           Inl e \<Rightarrow> (Some e, s)
         | Inr (scope_type, scope_identifier) \<Rightarrow>
             (case NOTIFICATION_SCOPE_TYPE cfg scope_type of
                None \<Rightarrow> (Some KeyError, s)
              | Some scope_type_str \<Rightarrow>
                  (let s1 = s\<lparr>options :=
                              filter (\<lambda>r. \<not> (nso_scope_type r = scope_type_str
                                              \<and> nso_scope_identifier r = scope_identifier
                                              \<and> nso_team_id r = team_id
                                              \<and> nso_user_id r = user_id
                                              \<and> nso_type r = str_type cfg type))
                                (options s)\<rparr>
                   in case find_settings provider type user_id team_id project organization of
                        Inl e \<Rightarrow> (Some e, s1)
                      | Inr q \<Rightarrow> (None, qs_delete q s1))))"

subsection \<open>Writing one setting\<close>

text \<open>The key the database gives to a new row.\<close>

definition next_id :: "('p, 't) NotificationSetting list \<Rightarrow> int" where
  "next_id rows = fold (\<lambda>r m. max (ns_id r + 1) m) rows 1"

text \<open>
  \<^verbatim>\<open>_update_settings\<close>: \<^verbatim>\<open>get_or_create\<close> looks the key up (a \<^verbatim>\<open>None\<close> argument
  selects a null column), creates the row from the key and the defaults when
  there is none, and raises when there are several; \<^verbatim>\<open>setting.update\<close> writes the
  row of that primary key. The tags set on the SDK scope are not part of the store.
\<close>

definition p_update_settings ::
  "'p \<Rightarrow> 't \<Rightarrow> NotificationSettingOptionValues \<Rightarrow> NotificationScopeType \<Rightarrow> int
     \<Rightarrow> int option \<Rightarrow> int option \<Rightarrow> ('p, 't) store \<Rightarrow> ('p, 't) outcome" where
  "p_update_settings provider type value scope_type scope_identifier user_id team_id s =
     (case filter (\<lambda>r. ns_provider r = provider \<and> ns_type r = type
                        \<and> ns_scope_type r = scope_type
                        \<and> ns_scope_identifier r = scope_identifier
                        \<and> ns_user_id r = user_id \<and> ns_team_id r = team_id)
             (settings s) of
        [] \<Rightarrow>
          (None, s\<lparr>settings := settings s @
                     [\<lparr>ns_id = next_id (settings s), ns_provider = provider, ns_type = type,
                       ns_scope_type = scope_type, ns_scope_identifier = scope_identifier,
                       ns_user_id = user_id, ns_team_id = team_id, ns_value = value\<rparr>]\<rparr>)
      | [setting] \<Rightarrow>
          if ns_value setting \<noteq> value
          then (None, s\<lparr>settings :=
                         map (\<lambda>r. if ns_id r = ns_id setting then r\<lparr>ns_value := value\<rparr> else r)
                           (settings s)\<rparr>)
          else (None, s)
      | _ \<Rightarrow> (Some MultipleObjectsReturned, s))"

text \<open>
  Modelled from the spec: \<^verbatim>\<open>validate\<close> of sentry/notifications/helpers.py, which is
  not part of the sources at hand. Section 7 of the specification: a value is
  validated against a fixed compatibility table, here \<open>VALID_VALUES_FOR_KEY_V2\<close>;
  a type without an entry permits no value.
\<close>

definition validate :: "('p, 't) tables \<Rightarrow> 't \<Rightarrow> NotificationSettingOptionValues \<Rightarrow> bool" where
  "validate cfg type value =
     (case map_of (VALID_VALUES_FOR_KEY_V2 cfg) type of
        None \<Rightarrow> False
      | Some permitted \<Rightarrow> value \<in> set permitted)"

text \<open>
  Modelled from the spec: \<^verbatim>\<open>create_or_update\<close> of the model managers
  (sentry/db/models), which is not part of the sources at hand. Section 4.4 of the
  specification calls it an upsert: the rows with the given key get the new
  value; when there is no such row, one is created.
\<close>

definition option_key ::
  "string \<Rightarrow> string \<Rightarrow> int \<Rightarrow> int option \<Rightarrow> int option \<Rightarrow> NotificationSettingOption \<Rightarrow> bool" where
  "option_key type scope_type scope_identifier user_id team_id r =
     (nso_type r = type \<and> nso_scope_type r = scope_type
      \<and> nso_scope_identifier r = scope_identifier
      \<and> nso_user_id r = user_id \<and> nso_team_id r = team_id)"

definition option_create_or_update ::
  "string \<Rightarrow> string \<Rightarrow> int \<Rightarrow> int option \<Rightarrow> int option \<Rightarrow> string
     \<Rightarrow> ('p, 't) store \<Rightarrow> ('p, 't) store" where
  "option_create_or_update type scope_type scope_identifier user_id team_id value s =
     (if filter (option_key type scope_type scope_identifier user_id team_id) (options s) = []
      then s\<lparr>options := options s @
                [\<lparr>nso_type = type, nso_scope_type = scope_type,
                  nso_scope_identifier = scope_identifier,
                  nso_user_id = user_id, nso_team_id = team_id, nso_value = value\<rparr>]\<rparr>
      else s\<lparr>options :=
                map (\<lambda>r. if option_key type scope_type scope_identifier user_id team_id r
                         then r\<lparr>nso_value := value\<rparr> else r)
                  (options s)\<rparr>)"

subsection \<open>Rebuilding the projection\<close>

text \<open>The dictionary \<^verbatim>\<open>base_query\<close> of \<^verbatim>\<open>update_provider_settings\<close>.\<close>

record base_query =
  bq_provider :: string
  bq_user_id :: "int option"
  bq_team_id :: "int option"
  bq_scope_type :: NotificationScopeEnum
  bq_scope_identifier :: int

definition base_matches :: "base_query \<Rightarrow> NotificationSettingProvider \<Rightarrow> bool" where
  "base_matches bq r =
     (nsp_provider r = bq_provider bq \<and> nsp_user_id r = bq_user_id bq
      \<and> nsp_team_id r = bq_team_id bq \<and> nsp_scope_type r = bq_scope_type bq
      \<and> nsp_scope_identifier r = bq_scope_identifier bq)"

text \<open>\<^verbatim>\<open>query_args\<close>: the base query and the name of the type.\<close>

definition provider_key :: "base_query \<Rightarrow> string \<Rightarrow> NotificationSettingProvider \<Rightarrow> bool" where
  "provider_key bq type r = (base_matches bq r \<and> nsp_type r = type)"

text \<open>
  \<^verbatim>\<open>NotificationSettingProvider.objects.create_or_update\<close>, the upsert described
  above, on the projection table.
\<close>

definition provider_create_or_update ::
  "base_query \<Rightarrow> string \<Rightarrow> NotificationSettingsOptionEnum \<Rightarrow> ('p, 't) store \<Rightarrow> ('p, 't) store" where
  "provider_create_or_update bq type value s =
     (if filter (provider_key bq type) (providers s) = []
      then s\<lparr>providers := providers s @
                [\<lparr>nsp_provider = bq_provider bq, nsp_type = type,
                  nsp_scope_type = bq_scope_type bq,
                  nsp_scope_identifier = bq_scope_identifier bq,
                  nsp_user_id = bq_user_id bq, nsp_team_id = bq_team_id bq,
                  nsp_value = value\<rparr>]\<rparr>
      else s\<lparr>providers :=
                map (\<lambda>r. if provider_key bq type r then r\<lparr>nsp_value := value\<rparr> else r)
                  (providers s)\<rparr>)"

text \<open>
  The first loop of \<^verbatim>\<open>update_provider_settings\<close>: the two \<^verbatim>\<open>defaultdict(set)\<close>, from
  a type to the names of its enabled and of its disabled providers.
\<close>

type_synonym 't providers_by_type = "'t \<Rightarrow> string set"

fun classify ::
  "('p, 't) tables \<Rightarrow> ('p, 't) NotificationSetting list
     \<Rightarrow> 't providers_by_type \<times> 't providers_by_type
     \<Rightarrow> error + 't providers_by_type \<times> 't providers_by_type" where
  "classify cfg [] (enabled, disabled) = Inr (enabled, disabled)"
| "classify cfg (setting # rest) (enabled, disabled) =
     (case EXTERNAL_PROVIDERS cfg (ns_provider setting) of
        None \<Rightarrow> Inl KeyError
      | Some provider \<Rightarrow>
          (let type = ns_type setting
           in if ns_value setting = NEVER
              then classify cfg rest (enabled, disabled(type := insert provider (disabled type)))
              else classify cfg rest (enabled(type := insert provider (enabled type)), disabled)))"

text \<open>
  The loop over \<^verbatim>\<open>VALID_VALUES_FOR_KEY_V2.keys()\<close> for one provider, followed by
  the deletion of the rows of \<^verbatim>\<open>types_to_delete\<close>.
\<close>

fun types_loop ::
  "('p, 't) tables \<Rightarrow> 't providers_by_type \<Rightarrow> 't providers_by_type \<Rightarrow> base_query
     \<Rightarrow> 't list \<Rightarrow> 't list \<Rightarrow> ('p, 't) store \<Rightarrow> ('p, 't) outcome" where
  "types_loop cfg enabled disabled bq types_to_delete [] s =
     (case those (map (NOTIFICATION_SETTING_TYPES cfg) types_to_delete) of
        None \<Rightarrow> (Some KeyError, s)
      | Some names \<Rightarrow>
          (None, s\<lparr>providers :=
                     filter (\<lambda>r. \<not> (base_matches bq r \<and> nsp_type r \<in> set names))
                       (providers s)\<rparr>))"
| "types_loop cfg enabled disabled bq types_to_delete (type # rest) s =
     (case NOTIFICATION_SETTING_TYPES cfg type of
        None \<Rightarrow> (Some KeyError, s)
      | Some type_name \<Rightarrow>
          if bq_provider bq \<in> enabled type
          then types_loop cfg enabled disabled bq types_to_delete rest
                 (provider_create_or_update bq type_name OptionEnum_ALWAYS s)
          else if bq_provider bq \<in> disabled type
          then types_loop cfg enabled disabled bq types_to_delete rest
                 (provider_create_or_update bq type_name OptionEnum_NEVER s)
          else types_loop cfg enabled disabled bq (types_to_delete @ [type]) rest s)"

text \<open>The loop over \<^verbatim>\<open>PERSONAL_NOTIFICATION_PROVIDERS\<close>.\<close>

fun providers_loop ::
  "('p, 't) tables \<Rightarrow> 't providers_by_type \<Rightarrow> 't providers_by_type
     \<Rightarrow> int option \<Rightarrow> int option \<Rightarrow> NotificationScopeEnum \<Rightarrow> int
     \<Rightarrow> string list \<Rightarrow> ('p, 't) store \<Rightarrow> ('p, 't) outcome" where
  "providers_loop cfg enabled disabled user_id team_id parent_scope_type
       parent_scope_identifier [] s = (None, s)"
| "providers_loop cfg enabled disabled user_id team_id parent_scope_type
       parent_scope_identifier (provider # rest) s =
     and_then
       (types_loop cfg enabled disabled
          \<lparr>bq_provider = provider, bq_user_id = user_id, bq_team_id = team_id,
           bq_scope_type = parent_scope_type,
           bq_scope_identifier = parent_scope_identifier\<rparr>
          [] (map fst (VALID_VALUES_FOR_KEY_V2 cfg)) s)
       (providers_loop cfg enabled disabled user_id team_id parent_scope_type
          parent_scope_identifier rest)"

text \<open>
  \<^verbatim>\<open>update_provider_settings\<close> after its assertion, with the parent scope already
  chosen.
\<close>

definition rebuild ::
  "('p, 't) tables \<Rightarrow> int option \<Rightarrow> int option \<Rightarrow> NotificationScopeEnum \<Rightarrow> int
     \<Rightarrow> ('p, 't) store \<Rightarrow> ('p, 't) outcome" where
  "rebuild cfg user_id team_id parent_scope_type parent_scope_identifier s =
     (let notification_settings =
            filter (\<lambda>r. ns_user_id r = user_id \<and> ns_team_id r = team_id
                         \<and> (ns_scope_type r = USER \<or> ns_scope_type r = TEAM))
              (settings s)
      in case classify cfg notification_settings (\<lambda>t. {}, \<lambda>t. {}) of
           Inl e \<Rightarrow> (Some e, s)
         | Inr (enabled, disabled) \<Rightarrow>
             providers_loop cfg enabled disabled user_id team_id parent_scope_type
               parent_scope_identifier (PERSONAL_NOTIFICATION_PROVIDERS cfg) s)"

text \<open>
  \<^verbatim>\<open>update_provider_settings\<close>. The parent scope is the team's when \<^verbatim>\<open>team_id\<close> is
  not \<^verbatim>\<open>None\<close>, the user's otherwise; past the assertion one of the two ids is a
  number.
\<close>

definition update_provider_settings ::
  "('p, 't) tables \<Rightarrow> int option \<Rightarrow> int option \<Rightarrow> ('p, 't) store \<Rightarrow> ('p, 't) outcome" where
  "update_provider_settings cfg user_id team_id s =
     (if \<not> (truthy team_id \<or> truthy user_id) then (Some AssertionError, s)
      else (case team_id of
              Some t \<Rightarrow> rebuild cfg user_id team_id ScopeEnum_TEAM t s
            | None \<Rightarrow> (case user_id of
                         Some u \<Rightarrow> rebuild cfg user_id team_id ScopeEnum_USER u s
                       | None \<Rightarrow> (Some AssertionError, s))))"

subsection \<open>Saving a preference\<close>

text \<open>
  The double write of \<^verbatim>\<open>update_settings\<close> to the option table, and the rebuild of
  the projection unless it is skipped.
\<close>

definition double_write ::
  "('p, 't) tables \<Rightarrow> 't \<Rightarrow> NotificationSettingOptionValues \<Rightarrow> NotificationScopeType \<Rightarrow> int
     \<Rightarrow> int option \<Rightarrow> int option \<Rightarrow> bool \<Rightarrow> ('p, 't) store \<Rightarrow> ('p, 't) outcome" where
  "double_write cfg type value scope_type scope_identifier user_id team_id
       skip_provider_updates s =
     (case NOTIFICATION_SETTING_TYPES cfg type of
        None \<Rightarrow> (Some KeyError, s)
      | Some type_name \<Rightarrow>
          (case NOTIFICATION_SCOPE_TYPE cfg scope_type of
             None \<Rightarrow> (Some KeyError, s)
           | Some scope_name \<Rightarrow>
               and_then
                 (if value = DEFAULT
                  then (None, s\<lparr>options :=
                                  filter (\<lambda>r. \<not> option_key type_name scope_name
                                                   scope_identifier user_id team_id r)
                                    (options s)\<rparr>)
                  else (case NOTIFICATION_SETTING_OPTION_VALUES cfg value of
                          None \<Rightarrow> (Some KeyError, s)
                        | Some value_name \<Rightarrow>
                            (None, option_create_or_update type_name scope_name
                                     scope_identifier user_id team_id value_name s)))
                 (\<lambda>s2. if \<not> skip_provider_updates
                       then update_provider_settings cfg user_id team_id s2
                       else (None, s2))))"

text \<open>
  \<^verbatim>\<open>update_settings\<close>. A \<^verbatim>\<open>User\<close> object is given as its id, an \<^verbatim>\<open>RpcActor\<close> as its
  type and id. The first \<open>let\<close> is the \<^verbatim>\<open>if user: ... elif actor: ...\<close> block; the
  \<open>case\<close> on \<open>team_id\<close> and \<open>user_id\<close> is the pair of assignments to
  \<^verbatim>\<open>actor_type\<close> and \<^verbatim>\<open>actor_id\<close>, of which the team's comes last.
\<close>

definition update_settings ::
  "('p, 't) tables \<Rightarrow> 'p \<Rightarrow> 't \<Rightarrow> NotificationSettingOptionValues \<Rightarrow> int option
     \<Rightarrow> int option \<Rightarrow> int option \<Rightarrow> int option \<Rightarrow> int option
     \<Rightarrow> (ActorType \<times> int) option \<Rightarrow> bool \<Rightarrow> ('p, 't) store \<Rightarrow> ('p, 't) outcome" where
  "update_settings cfg provider type value user user_id team_id project organization
       actor skip_provider_updates s =
     (let user_id = (case user of
                       Some u \<Rightarrow> Some u
                     | None \<Rightarrow> (case actor of
                                  Some (actor_type, actor_id) \<Rightarrow>
                                    if actor_type = ActorType_USER then Some actor_id
                                    else user_id
                                | None \<Rightarrow> user_id));
          team_id = (case user of
                       Some u \<Rightarrow> team_id
                     | None \<Rightarrow> (case actor of
                                  Some (actor_type, actor_id) \<Rightarrow>
                                    if actor_type = ActorType_USER then team_id
                                    else Some actor_id
                                | None \<Rightarrow> team_id))
      in case (case team_id of
                 Some t \<Rightarrow> Some (ActorType_TEAM, t)
               | None \<Rightarrow> (case user_id of
                            Some u \<Rightarrow> Some (ActorType_USER, u)
                          | None \<Rightarrow> None)) of
           None \<Rightarrow> (Some UnboundLocalError, s)
         | Some (actor_type, actor_id) \<Rightarrow>
             (let s0 = s\<lparr>analytics := analytics s @
                          [(if actor_type = ActorType_USER then ''user'' else ''team'',
                            actor_id)]\<rparr>
              in case get_scope team_id user_id project organization of
                   Inl e \<Rightarrow> (Some e, s0)
                 | Inr (scope_type, scope_identifier) \<Rightarrow>
                     and_then
                       (if value = DEFAULT
                        then remove_settings cfg provider type None user_id team_id
                               project organization s0
                        else if \<not> validate cfg type value
                        then (Some InvalidValueForTypeError, s0)
                        else if actor_type = ActorType_USER
                        then p_update_settings provider type value scope_type
                               scope_identifier (Some actor_id) None s0
                        else p_update_settings provider type value scope_type
                               scope_identifier None (Some actor_id) s0)
                       (double_write cfg type value scope_type scope_identifier
                          user_id team_id skip_provider_updates)))"

subsection \<open>Settings of a list of recipients under a parent\<close>

text \<open>
  A parent is a project (its id and the id of its organization) or an
  organization (its id). A recipient arrives resolved, as an actor type and an id:
  \<^verbatim>\<open>RpcActor.from_object\<close> is the work of a collaborator.
\<close>

datatype parent = Project int int | Organization int

fun parent_id :: "parent \<Rightarrow> int" where
  "parent_id (Project project_id organization_id) = project_id"
| "parent_id (Organization organization_id) = organization_id"

type_synonym recipient = "ActorType \<times> int"

definition ids_of :: "ActorType \<Rightarrow> recipient list \<Rightarrow> int list" where
  "ids_of actor_type recipients = map snd (filter (\<lambda>r. fst r = actor_type) recipients)"

text \<open>\<^verbatim>\<open>column__in=ids\<close> for a set of ids.\<close>

definition id_in :: "int option \<Rightarrow> int list \<Rightarrow> bool" where
  "id_in c ids = (case c of None \<Rightarrow> False | Some n \<Rightarrow> n \<in> set ids)"

definition get_for_recipient_by_parent ::
  "('p, 't) tables \<Rightarrow> 't \<Rightarrow> parent \<Rightarrow> recipient list \<Rightarrow> error + ('p, 't) QuerySet" where
  "get_for_recipient_by_parent cfg type' parent recipients =
     (let user_ids = ids_of ActorType_USER recipients;
          team_ids = ids_of ActorType_TEAM recipients
      in if \<not> (team_ids \<noteq> [] \<or> user_ids \<noteq> []) then Inr qs_none
         else (case get_scope_type cfg type' of
                 Inl e \<Rightarrow> Inl e
               | Inr parent_specific_scope_type \<Rightarrow>
                   Inr (\<lambda>r. ((ns_scope_type r = parent_specific_scope_type
                              \<and> ns_scope_identifier r = parent_id parent)
                             \<or> (ns_scope_type r = USER \<and> ns_scope_identifier r \<in> set user_ids)
                             \<or> (ns_scope_type r = TEAM \<and> ns_scope_identifier r \<in> set team_ids))
                            \<and> (id_in (ns_team_id r) team_ids \<or> id_in (ns_user_id r) user_ids)
                            \<and> ns_type r = type')))"

text \<open>
  The query as the specification words it, for comparison: the parent-scoped
  disjunct uses the natural tier of the parent, \<open>PROJECT\<close> for a project and
  \<open>ORGANIZATION\<close> for an organization.
\<close>

fun natural_tier :: "parent \<Rightarrow> NotificationScopeType" where
  "natural_tier (Project project_id organization_id) = PROJECT"
| "natural_tier (Organization organization_id) = ORGANIZATION"

definition spec_for_recipient_by_parent ::
  "'t \<Rightarrow> parent \<Rightarrow> recipient list \<Rightarrow> ('p, 't) QuerySet" where
  "spec_for_recipient_by_parent type' parent recipients = (\<lambda>r.
     ((ns_scope_type r = natural_tier parent \<and> ns_scope_identifier r = parent_id parent)
      \<or> (ns_scope_type r = USER
          \<and> ns_scope_identifier r \<in> set (ids_of ActorType_USER recipients))
      \<or> (ns_scope_type r = TEAM
          \<and> ns_scope_identifier r \<in> set (ids_of ActorType_TEAM recipients)))
     \<and> (id_in (ns_team_id r) (ids_of ActorType_TEAM recipients)
        \<or> id_in (ns_user_id r) (ids_of ActorType_USER recipients))
     \<and> ns_type r = type')"

subsection \<open>Recipients who accept a notification\<close>

text \<open>
  Modelled from the spec: \<^verbatim>\<open>NotificationController.get_notification_recipients\<close> of
  sentry/notifications/notificationcontroller.py, which is not part of the sources
  at hand. Section 4.3 of the specification, \<^verbatim>\<open>getSubscribersByProvider\<close>: for each
  recipient the record scoped to the parent, if present, wins over the recipient's
  own global record; if neither exists the value is \<open>DEFAULT\<close>, which the default
  policy resolves; a recipient is grouped under a provider when the final value is
  not \<open>NEVER\<close>. The controller is built from the recipients, the list of project ids
  (the parent's id when the parent is a project), the id of the organization and the
  name of the alert type; the result maps a provider to its recipients.
\<close>

definition owned_by :: "recipient \<Rightarrow> ('p, 't) NotificationSetting \<Rightarrow> bool" where
  "owned_by recipient r =
     (if fst recipient = ActorType_USER then ns_user_id r = Some (snd recipient)
      else ns_team_id r = Some (snd recipient))"

definition own_scope :: "recipient \<Rightarrow> NotificationScopeType \<times> int" where
  "own_scope recipient =
     (if fst recipient = ActorType_USER then (USER, snd recipient) else (TEAM, snd recipient))"

definition records_at ::
  "('p, 't) tables \<Rightarrow> string \<Rightarrow> 'p \<Rightarrow> recipient \<Rightarrow> NotificationScopeType \<times> int
     \<Rightarrow> ('p, 't) store \<Rightarrow> ('p, 't) NotificationSetting list" where
  "records_at cfg setting_type provider recipient scope s =
     filter (\<lambda>r. NOTIFICATION_SETTING_TYPES cfg (ns_type r) = Some setting_type
                  \<and> ns_provider r = provider \<and> owned_by recipient r
                  \<and> (ns_scope_type r, ns_scope_identifier r) = scope)
       (settings s)"

definition effective_value ::
  "('p, 't) tables \<Rightarrow> string \<Rightarrow> 'p \<Rightarrow> recipient \<Rightarrow> NotificationScopeType \<times> int
     \<Rightarrow> ('p, 't) store \<Rightarrow> NotificationSettingOptionValues" where
  "effective_value cfg setting_type provider recipient parent_scope s =
     (case records_at cfg setting_type provider recipient parent_scope s of
        r # _ \<Rightarrow> ns_value r
      | [] \<Rightarrow> (case records_at cfg setting_type provider recipient (own_scope recipient) s of
                 r # _ \<Rightarrow> ns_value r
               | [] \<Rightarrow> DEFAULT))"

definition subscribed ::
  "('p, 't) tables \<Rightarrow> string \<Rightarrow> 'p \<Rightarrow> recipient \<Rightarrow> NotificationScopeType \<times> int
     \<Rightarrow> ('p, 't) store \<Rightarrow> bool" where
  "subscribed cfg setting_type provider recipient parent_scope s =
     (let v = effective_value cfg setting_type provider recipient parent_scope s
      in if v = DEFAULT then default_policy cfg setting_type provider else v \<noteq> NEVER)"

definition get_notification_recipients ::
  "('p, 't) tables \<Rightarrow> recipient list \<Rightarrow> int list option \<Rightarrow> int \<Rightarrow> string
     \<Rightarrow> ('p, 't) store \<Rightarrow> 'p \<Rightarrow> recipient list" where
  "get_notification_recipients cfg recipients project_ids organization_id setting_type s =
     (let parent_scope = (case project_ids of
                            Some (project_id # _) \<Rightarrow> (PROJECT, project_id)
                          | _ \<Rightarrow> (ORGANIZATION, organization_id))
      in (\<lambda>provider.
            filter (\<lambda>recipient. subscribed cfg setting_type provider recipient parent_scope s)
              recipients))"

text \<open>
  \<^verbatim>\<open>filter_to_accepting_recipients\<close>: the type is optional and every member is
  truthy; a type without a name raises \<open>KeyError\<close>.
\<close>

definition filter_to_accepting_recipients ::
  "('p, 't) tables \<Rightarrow> parent \<Rightarrow> recipient list \<Rightarrow> 't option \<Rightarrow> ('p, 't) store
     \<Rightarrow> error + ('p \<Rightarrow> recipient list)" where
  "filter_to_accepting_recipients cfg parent recipients type s =
     (let recipient_actors = recipients;
          organization_id = (case parent of
                               Project project_id organization_id \<Rightarrow> organization_id
                             | Organization organization_id \<Rightarrow> organization_id);
          project_ids = (case parent of
                           Project project_id organization_id \<Rightarrow> Some [project_id]
                         | Organization organization_id \<Rightarrow> None)
      in case (case type of
                 Some t \<Rightarrow> (case NOTIFICATION_SETTING_TYPES cfg t of
                              None \<Rightarrow> Inl KeyError
                            | Some type_name \<Rightarrow> Inr type_name)
               | None \<Rightarrow> Inr (ISSUE_ALERTS_setting cfg)) of
           Inl e \<Rightarrow> Inl e
         | Inr setting_type \<Rightarrow>
             Inr (get_notification_recipients cfg recipient_actors project_ids
                    organization_id setting_type s))"

subsection \<open>Sample data\<close>

text \<open>
  A small instance on which the results below are evaluated: three providers and
  three alert types standing for the members of the two enumerations, tables for
  them, and a store in which user 1 has a setting of his own, two settings scoped to
  the projects 7 and 8, and one scoped to the organization 7. A second store holds
  two settings of one key, against the uniqueness of the data model.
\<close>

datatype sample_provider = EMAIL | SLACK | PAGERDUTY

datatype sample_type = ISSUE_ALERTS | WORKFLOW | DEPLOY

definition sample_tables :: "(sample_provider, sample_type) tables" where
  "sample_tables =
     \<lparr>EXTERNAL_PROVIDERS =
        (\<lambda>p. case p of EMAIL \<Rightarrow> Some ''email'' | SLACK \<Rightarrow> Some ''slack''
                      | PAGERDUTY \<Rightarrow> Some ''pagerduty''),
      PERSONAL_NOTIFICATION_PROVIDERS = [''email'', ''slack''],
      VALID_VALUES_FOR_KEY_V2 =
        [(ISSUE_ALERTS, [ALWAYS, NEVER]), (WORKFLOW, [ALWAYS, SUBSCRIBE_ONLY, NEVER])],
      NOTIFICATION_SETTING_TYPES =
        (\<lambda>t. case t of ISSUE_ALERTS \<Rightarrow> Some ''alerts'' | WORKFLOW \<Rightarrow> Some ''workflow''
                      | DEPLOY \<Rightarrow> Some ''deploy''),
      NOTIFICATION_SCOPE_TYPE =
        (\<lambda>st. case st of USER \<Rightarrow> Some ''user'' | ORGANIZATION \<Rightarrow> Some ''organization''
                       | PROJECT \<Rightarrow> Some ''project'' | TEAM \<Rightarrow> Some ''team''),
      NOTIFICATION_SETTING_OPTION_VALUES =
        (\<lambda>v. case v of DEFAULT \<Rightarrow> Some ''default'' | NEVER \<Rightarrow> Some ''never''
                      | ALWAYS \<Rightarrow> Some ''always'' | SUBSCRIBE_ONLY \<Rightarrow> Some ''subscribe_only''
                      | COMMITTED_ONLY \<Rightarrow> Some ''committed_only''),
      get_scope_type =
        (\<lambda>t. case t of DEPLOY \<Rightarrow> Inr ORGANIZATION | _ \<Rightarrow> Inr PROJECT),
      str_type =
        (\<lambda>t. case t of ISSUE_ALERTS \<Rightarrow> ''NotificationSettingTypes.ISSUE_ALERTS''
                      | WORKFLOW \<Rightarrow> ''NotificationSettingTypes.WORKFLOW''
                      | DEPLOY \<Rightarrow> ''NotificationSettingTypes.DEPLOY''),
      ISSUE_ALERTS_setting = ''alerts'',
      default_policy = (\<lambda>n p. True)\<rparr>"

definition setting_row ::
  "int \<Rightarrow> 'p \<Rightarrow> 't \<Rightarrow> NotificationScopeType \<Rightarrow> int \<Rightarrow> int option \<Rightarrow> int option
     \<Rightarrow> NotificationSettingOptionValues \<Rightarrow> ('p, 't) NotificationSetting" where
  "setting_row i provider type scope_type scope_identifier user_id team_id value =
     \<lparr>ns_id = i, ns_provider = provider, ns_type = type, ns_scope_type = scope_type,
      ns_scope_identifier = scope_identifier, ns_user_id = user_id, ns_team_id = team_id,
      ns_value = value\<rparr>"

definition sample_store :: "(sample_provider, sample_type) store" where
  "sample_store =
     \<lparr>settings =
        [setting_row 1 EMAIL ISSUE_ALERTS USER 1 (Some 1) None ALWAYS,
         setting_row 2 EMAIL ISSUE_ALERTS PROJECT 7 (Some 1) None NEVER,
         setting_row 3 SLACK WORKFLOW PROJECT 8 (Some 1) None ALWAYS,
         setting_row 4 EMAIL DEPLOY ORGANIZATION 7 (Some 1) None NEVER],
      options = [], providers = [], analytics = []\<rparr>"

definition duplicate_store :: "(sample_provider, sample_type) store" where
  "duplicate_store =
     \<lparr>settings =
        [setting_row 5 EMAIL ISSUE_ALERTS USER 1 (Some 1) None NEVER,
         setting_row 1 EMAIL ISSUE_ALERTS USER 1 (Some 1) None ALWAYS],
      options = [], providers = [], analytics = []\<rparr>"

section \<open>Properties\<close>

subsection \<open>Bulk deletion and the filter builder\<close>

lemma p_filter_project:
  "project_id \<noteq> 0 \<Longrightarrow> p_filter None type (Some PROJECT) (Some project_id) None None =
     (\<lambda>r. ns_scope_type r = PROJECT \<and> ns_scope_identifier r = project_id
          \<and> (case type of None \<Rightarrow> True | Some t \<Rightarrow> ns_type r = t))"
  by (auto simp: p_filter_def truthy_def truthy_ids_def fun_eq_iff split: option.splits)

text \<open>
  Claim C8. For a project id other than zero and an optional type,
  \<^verbatim>\<open>remove_for_project\<close> deletes exactly the settings whose scope type is \<open>PROJECT\<close>
  and whose scope identifier is that id (of that type, when one is given). Every
  other setting stays, unchanged and in place: those of the scopes \<open>USER\<close>, \<open>TEAM\<close>
  and \<open>ORGANIZATION\<close>, those of another project, and those of another type when a
  type is given. The two other tables are not touched.
\<close>

theorem remove_for_project_exact:
  assumes "project_id \<noteq> 0"
  shows "settings (remove_for_project project_id type s) =
           filter (\<lambda>r. \<not> (ns_scope_type r = PROJECT \<and> ns_scope_identifier r = project_id
                            \<and> (case type of None \<Rightarrow> True | Some t \<Rightarrow> ns_type r = t)))
             (settings s)
         \<and> options (remove_for_project project_id type s) = options s
         \<and> providers (remove_for_project project_id type s) = providers s"
  using assms by (simp add: remove_for_project_def qs_delete_def p_filter_project)

text \<open>
  Claim C10. \<^verbatim>\<open>_filter\<close> reads a falsy argument as "no constraint": the scope
  identifier 0 filters like \<^verbatim>\<open>None\<close>, two empty collections of ids filter like
  \<^verbatim>\<open>None\<close>, and with no truthy argument every row is selected. So
  \<^verbatim>\<open>remove_for_project(0)\<close> deletes every setting of scope \<open>PROJECT\<close>, whatever its
  project (of the given type, when one is given), and
  \<^verbatim>\<open>remove_for_organization(0)\<close> every setting of scope \<open>ORGANIZATION\<close>.
\<close>

theorem falsy_filter_argument:
  "p_filter provider type scope_type (Some 0) user_ids team_ids
     = p_filter provider type scope_type None user_ids team_ids
   \<and> p_filter provider type scope_type scope_identifier (Some []) (Some [])
     = p_filter provider type scope_type scope_identifier None None
   \<and> p_filter None None None None None None = (\<lambda>r::('p, 't) NotificationSetting. True)
   \<and> settings (remove_for_project 0 type' (s::('p, 't) store)) =
           filter (\<lambda>r. \<not> (ns_scope_type r = PROJECT
                            \<and> (case type' of None \<Rightarrow> True | Some t \<Rightarrow> ns_type r = t)))
             (settings s)
   \<and> settings (remove_for_organization 0 type' s) =
           filter (\<lambda>r. \<not> (ns_scope_type r = ORGANIZATION
                            \<and> (case type' of None \<Rightarrow> True | Some t \<Rightarrow> ns_type r = t)))
             (settings s)"
  by (auto simp: remove_for_project_def remove_for_organization_def qs_delete_def p_filter_def truthy_def truthy_ids_def fun_eq_iff split: option.splits intro!: filter_cong)

lemma first_value_order:
  assumes "set xs = set ys"
    and "\<forall>a\<in>set xs. \<forall>b\<in>set xs. P a \<and> P b \<longrightarrow> f a = f b"
  shows "(case filter P xs of [] \<Rightarrow> d | x # _ \<Rightarrow> f x)
           = (case filter P ys of [] \<Rightarrow> d | y # _ \<Rightarrow> f y)"
proof (cases "filter P xs")
  case Nil
  then have "filter P ys = []" using assms(1) by (auto simp: filter_empty_conv)
  with Nil show ?thesis by simp
next
  case (Cons x xs')
  then have "x \<in> set (filter P xs)" by simp
  then have x: "x \<in> set xs" "P x" by simp_all
  show ?thesis
  proof (cases "filter P ys")
    case Nil
    then show ?thesis using x assms(1) by (auto simp: filter_empty_conv)
  next
    case c: (Cons y ys')
    then have "y \<in> set (filter P ys)" by simp
    then have y: "y \<in> set ys" "P y" by simp_all
    then have "f x = f y" using x assms by blast
    then show ?thesis using Cons c by simp
  qed
qed

text \<open>
  Claim C3, as amended. For a single recipient (a user or a team) of an id other
  than zero and the scope the resolver gives, \<^verbatim>\<open>get_settings\<close> raises nothing and
  returns \<open>DEFAULT\<close> when no stored setting matches the key (provider, type, scope,
  recipient), the value of the setting when exactly one matches, and, when several
  match, the value of the one the database returns first: the query has no
  ordering, so which one that is depends on the order of the rows and not on their
  ids. When the matching settings agree in value, as they do under the uniqueness
  of the data model, the result is the same for every order of the rows. For the
  recipient id 0 the call raises \<open>AssertionError\<close>; a scope identifier 0 is not
  compared.
\<close>

theorem get_settings_lookup:
  assumes rc: "(user_id = Some n \<and> team_id = None) \<or> (user_id = None \<and> team_id = Some n)"
    and gs: "get_scope team_id user_id project organization = Inr (scope_type, scope_identifier)"
  shows "get_settings provider type user_id team_id project organization s =
           (if n = 0 then Inl AssertionError
            else Inr (case filter (\<lambda>r. ns_provider r = provider \<and> ns_type r = type
                                  \<and> ns_scope_type r = scope_type
                                  \<and> (scope_identifier \<noteq> 0 \<longrightarrow>
                                        ns_scope_identifier r = scope_identifier)
                                  \<and> (if team_id = None then ns_user_id r = Some n
                                      else ns_team_id r = Some n))
                       (settings s) of
                  [] \<Rightarrow> DEFAULT
                | setting # _ \<Rightarrow> ns_value setting))
       \<and> ((\<forall>a\<in>set (settings s). \<forall>b\<in>set (settings s).
              (ns_provider a = provider \<and> ns_type a = type \<and> ns_scope_type a = scope_type
               \<and> (scope_identifier \<noteq> 0 \<longrightarrow> ns_scope_identifier a = scope_identifier)
               \<and> (if team_id = None then ns_user_id a = Some n else ns_team_id a = Some n))
              \<and> (ns_provider b = provider \<and> ns_type b = type \<and> ns_scope_type b = scope_type
               \<and> (scope_identifier \<noteq> 0 \<longrightarrow> ns_scope_identifier b = scope_identifier)
               \<and> (if team_id = None then ns_user_id b = Some n else ns_team_id b = Some n))
              \<longrightarrow> ns_value a = ns_value b) \<longrightarrow>
           (\<forall>s'. set (settings s') = set (settings s) \<longrightarrow>
              get_settings provider type user_id team_id project organization s'
                = get_settings provider type user_id team_id project organization s))"
proof -
  let ?k = "\<lambda>r::('a, 'b) NotificationSetting. ns_provider r = provider \<and> ns_type r = type
                                  \<and> ns_scope_type r = scope_type
                                  \<and> (scope_identifier \<noteq> 0 \<longrightarrow>
                                        ns_scope_identifier r = scope_identifier)
                                  \<and> (if team_id = None then ns_user_id r = Some n
                                      else ns_team_id r = Some n)"
  have zero: "find_settings provider type user_id team_id project organization
                = Inl AssertionError" if "n = 0"
    using rc that by (auto simp: find_settings_def add_if_truthy_def)
  have q: "find_settings provider type user_id team_id project organization = Inr ?k"
    if "n \<noteq> 0"
    using rc gs that
    by (auto simp: find_settings_def add_if_truthy_def p_filter_def truthy_def truthy_ids_def
        column_in_def fun_eq_iff split: option.splits)
  have val: "get_settings provider type user_id team_id project organization z =
           (if n = 0 then Inl AssertionError
            else Inr (case filter ?k (settings z) of
                  [] \<Rightarrow> DEFAULT
                | setting # _ \<Rightarrow> ns_value setting))" for z
  proof (cases "n = 0")
    case True
    then show ?thesis by (simp add: get_settings_def zero)
  next
    case False
    then show ?thesis
      unfolding get_settings_def q [OF False] qs_list_def
      by (cases "filter ?k (settings z)") simp_all
  qed
  have ord: "get_settings provider type user_id team_id project organization s'
                = get_settings provider type user_id team_id project organization s"
    if agree: "\<forall>a\<in>set (settings s). \<forall>b\<in>set (settings s). ?k a \<and> ?k b \<longrightarrow> ns_value a = ns_value b"
      and same: "set (settings s') = set (settings s)" for s'
    unfolding val
    using first_value_order [OF same [symmetric] agree, of DEFAULT] by simp
  from val [of s] ord show ?thesis by blast
qed

subsection \<open>The rebuild leaves the other tables alone\<close>

lemma settings_provider_create_or_update [simp]:
  "settings (provider_create_or_update bq type v s) = settings s"
  "options (provider_create_or_update bq type v s) = options s"
  "analytics (provider_create_or_update bq type v s) = analytics s"
  by (simp_all add: provider_create_or_update_def)

lemma types_loop_frame:
  "settings (snd (types_loop cfg enabled disabled bq ttd ts s)) = settings s
   \<and> options (snd (types_loop cfg enabled disabled bq ttd ts s)) = options s
   \<and> analytics (snd (types_loop cfg enabled disabled bq ttd ts s)) = analytics s"
  by (induction ts arbitrary: ttd s) (auto split: option.splits)

lemma types_loop_error:
  "fst (types_loop cfg enabled disabled bq ttd ts s) = fst (types_loop cfg enabled disabled bq ttd ts s')"
  by (induction ts arbitrary: ttd s s') (auto split: option.splits)

lemma providers_loop_frame:
  "settings (snd (providers_loop cfg enabled disabled u t pst psi ps s)) = settings s
   \<and> options (snd (providers_loop cfg enabled disabled u t pst psi ps s)) = options s
   \<and> analytics (snd (providers_loop cfg enabled disabled u t pst psi ps s)) = analytics s"
proof (induction ps arbitrary: s)
  case Nil
  then show ?case by simp
next
  case (Cons p ps)
  let ?r = "types_loop cfg enabled disabled
          \<lparr>bq_provider = p, bq_user_id = u, bq_team_id = t,
           bq_scope_type = pst, bq_scope_identifier = psi\<rparr>
          [] (map fst (VALID_VALUES_FOR_KEY_V2 cfg)) s"
  show ?case
  proof (cases ?r)
    case (Pair e s1)
    have f: "settings s1 = settings s \<and> options s1 = options s \<and> analytics s1 = analytics s"
      using types_loop_frame [of cfg enabled disabled _ "[]" _ s] Pair
      by (metis snd_conv)
    show ?thesis
      using Pair f Cons.IH [of s1]
      by (cases e) (simp_all add: and_then_def)
  qed
qed

lemma providers_loop_error:
  "fst (providers_loop cfg enabled disabled u t pst psi ps s)
     = fst (providers_loop cfg enabled disabled u t pst psi ps s')"
proof (induction ps arbitrary: s s')
  case Nil
  then show ?case by simp
next
  case (Cons p ps)
  let ?bq = "\<lparr>bq_provider = p, bq_user_id = u, bq_team_id = t,
           bq_scope_type = pst, bq_scope_identifier = psi\<rparr>"
  obtain e s1 where r: "types_loop cfg enabled disabled ?bq [] (map fst (VALID_VALUES_FOR_KEY_V2 cfg)) s = (e, s1)"
    by (cases "types_loop cfg enabled disabled ?bq [] (map fst (VALID_VALUES_FOR_KEY_V2 cfg)) s") 
  obtain e' s1' where r': "types_loop cfg enabled disabled ?bq [] (map fst (VALID_VALUES_FOR_KEY_V2 cfg)) s' = (e', s1')"
    by (cases "types_loop cfg enabled disabled ?bq [] (map fst (VALID_VALUES_FOR_KEY_V2 cfg)) s'") 
  have ee: "e = e'"
    using types_loop_error [of cfg enabled disabled ?bq "[]" _ s s'] r r' by (metis fst_conv)
  show ?case
    using r r' ee Cons.IH [of s1 s1']
    by (cases e') (simp_all add: and_then_def)
qed

lemma rebuild_frame:
  "settings (snd (rebuild cfg user_id team_id pst psi s)) = settings s
   \<and> options (snd (rebuild cfg user_id team_id pst psi s)) = options s
   \<and> analytics (snd (rebuild cfg user_id team_id pst psi s)) = analytics s"
proof (cases "classify cfg (filter (\<lambda>r. ns_user_id r = user_id \<and> ns_team_id r = team_id
                         \<and> (ns_scope_type r = USER \<or> ns_scope_type r = TEAM))
              (settings s)) (\<lambda>t. {}, \<lambda>t. {})")
  case (Inl e)
  then show ?thesis by (simp add: rebuild_def)
next
  case (Inr b)
  then show ?thesis
    using providers_loop_frame [of cfg "fst b" "snd b" user_id team_id pst psi _ s]
    by (cases b) (simp add: rebuild_def)
qed

lemma rebuild_error:
  assumes "settings s = settings s'"
  shows "fst (rebuild cfg user_id team_id pst psi s) = fst (rebuild cfg user_id team_id pst psi s')"
proof (cases "classify cfg (filter (\<lambda>r. ns_user_id r = user_id \<and> ns_team_id r = team_id
                         \<and> (ns_scope_type r = USER \<or> ns_scope_type r = TEAM))
              (settings s)) (\<lambda>t. {}, \<lambda>t. {})")
  case (Inl e)
  then show ?thesis using assms by (simp add: rebuild_def)
next
  case (Inr b)
  then show ?thesis
    using assms providers_loop_error [of cfg "fst b" "snd b" user_id team_id pst psi _ s s']
    by (cases b) (simp add: rebuild_def)
qed

lemma update_provider_settings_frame:
  "settings (snd (update_provider_settings cfg user_id team_id s)) = settings s
   \<and> options (snd (update_provider_settings cfg user_id team_id s)) = options s
   \<and> analytics (snd (update_provider_settings cfg user_id team_id s)) = analytics s"
  by (simp add: update_provider_settings_def rebuild_frame split: option.splits)

lemma update_provider_settings_error:
  "settings s = settings s' \<Longrightarrow>
   fst (update_provider_settings cfg user_id team_id s)
     = fst (update_provider_settings cfg user_id team_id s')"
  using rebuild_error [of s s' cfg user_id team_id]
  by (auto simp: update_provider_settings_def split: option.splits)

subsection \<open>Recipient checks, validation and the upsert\<close>

text \<open>
  Claim C6, as amended. When both \<^verbatim>\<open>user_id\<close> and \<^verbatim>\<open>team_id\<close> are given (as ids
  other than zero), or neither, \<^verbatim>\<open>find_settings\<close> and \<^verbatim>\<open>get_settings\<close> raise
  \<open>AssertionError\<close>; \<^verbatim>\<open>remove_settings\<close> ends with an exception, and no setting and
  no projection row is deleted; \<^verbatim>\<open>update_settings\<close> with neither id raises
  \<open>UnboundLocalError\<close> at its assertion, before the analytics event and before any
  write.
\<close>

theorem single_recipient_required:
  assumes "(truthy user_id \<and> truthy team_id) \<or> (\<not> truthy user_id \<and> \<not> truthy team_id)"
  shows "find_settings provider type user_id team_id project organization = Inl AssertionError
       \<and> get_settings provider type user_id team_id project organization s
           = Inl AssertionError
       \<and> (\<exists>e s'. remove_settings cfg provider type None user_id team_id project organization s
                    = (Some e, s')
                 \<and> settings s' = settings s \<and> providers s' = providers s
                 \<and> analytics s' = analytics s)
       \<and> (user_id = None \<and> team_id = None \<longrightarrow>
            update_settings cfg provider type value' None user_id team_id project
              organization None skip s = (Some UnboundLocalError, s))"
proof -
  have a: "find_settings provider type user_id team_id project organization
             = Inl AssertionError"
    using assms
    by (auto simp: find_settings_def add_if_truthy_def truthy_def Let_def split: option.splits)
  have b: "get_settings provider type user_id team_id project organization s
             = Inl AssertionError"
    by (simp add: get_settings_def a)
  have c: "\<exists>e s'. remove_settings cfg provider type None user_id team_id project organization s
                    = (Some e, s')
                 \<and> settings s' = settings s \<and> providers s' = providers s
                 \<and> analytics s' = analytics s"
  proof (cases "get_scope team_id user_id project organization")
    case (Inl e)
    then show ?thesis by (simp add: remove_settings_def)
  next
    case (Inr sc)
    then show ?thesis
      by (cases sc; cases "NOTIFICATION_SCOPE_TYPE cfg (fst sc)")
         (auto simp: remove_settings_def a Let_def)
  qed
  have d: "user_id = None \<and> team_id = None \<longrightarrow>
            update_settings cfg provider type value' None user_id team_id project
              organization None skip s = (Some UnboundLocalError, s)"
    by (simp add: update_settings_def)
  from a b c d show ?thesis by blast
qed

text \<open>
  Claim C7. When \<^verbatim>\<open>update_settings\<close> is given a value other than \<open>DEFAULT\<close> that the
  table \<open>VALID_VALUES_FOR_KEY_V2\<close> does not permit for the type, the call raises and
  the three tables are as before; with a single recipient what it raises is the
  error for an invalid value.
\<close>

theorem invalid_value_rejected:
  assumes "value' \<noteq> DEFAULT" and "\<not> validate cfg type value'"
  shows "(\<exists>e s'. update_settings cfg provider type value' None user_id team_id project
                    organization None skip s = (Some e, s')
                 \<and> settings s' = settings s
                 \<and> options s' = options s \<and> providers s' = providers s)
       \<and> ((user_id = None) \<noteq> (team_id = None) \<longrightarrow>
            fst (update_settings cfg provider type value' None user_id team_id project
                    organization None skip s) = Some InvalidValueForTypeError)"
  using assms
  by (cases user_id; cases team_id)
     (auto simp: update_settings_def get_scope_def and_then_def)

lemma double_write_frame:
  "settings (snd (double_write cfg type value st sid u t skip s)) = settings s
   \<and> analytics (snd (double_write cfg type value st sid u t skip s)) = analytics s"
  by (auto simp: double_write_def and_then_def option_create_or_update_def
      update_provider_settings_frame split: option.splits)

lemma double_write_error:
  assumes "settings sx = settings s"
  shows "fst (double_write cfg type value st sid u t skip sx)
           = fst (double_write cfg type value st sid u t skip s)"
proof (cases "NOTIFICATION_SETTING_TYPES cfg type")
  case None
  then show ?thesis by (simp add: double_write_def)
next
  case tn: (Some tn)
  show ?thesis
  proof (cases "NOTIFICATION_SCOPE_TYPE cfg st")
    case None
    then show ?thesis using tn by (simp add: double_write_def)
  next
    case sn: (Some sn)
    show ?thesis
    proof (cases "value = DEFAULT")
      case True
      let ?f = "\<lambda>z::('a, 'b) store.
                  z\<lparr>options := filter (\<lambda>r. \<not> option_key tn sn sid u t r) (options z)\<rparr>"
      have "fst (update_provider_settings cfg u t (?f sx))
              = fst (update_provider_settings cfg u t (?f s))"
        by (rule update_provider_settings_error) (simp add: assms)
      then show ?thesis
        using True tn sn by (simp add: double_write_def and_then_def)
    next
      case False
      show ?thesis
      proof (cases "NOTIFICATION_SETTING_OPTION_VALUES cfg value")
        case None
        then show ?thesis
          using False tn sn by (simp add: double_write_def and_then_def)
      next
        case (Some vn)
        let ?f = "\<lambda>z::('a, 'b) store. option_create_or_update tn sn sid u t vn z"
        have "fst (update_provider_settings cfg u t (?f sx))
                = fst (update_provider_settings cfg u t (?f s))"
          by (rule update_provider_settings_error)
             (simp add: assms option_create_or_update_def)
        then show ?thesis
          using False tn sn Some by (simp add: double_write_def and_then_def)
      qed
    qed
  qed
qed

text \<open>The key of \<^verbatim>\<open>get_or_create\<close>.\<close>

lemma p_update_settings_frame:
  "options (snd (p_update_settings provider type value st sid u t s)) = options s
   \<and> providers (snd (p_update_settings provider type value st sid u t s)) = providers s
   \<and> analytics (snd (p_update_settings provider type value st sid u t s)) = analytics s"
  by (auto simp: p_update_settings_def split: list.splits)

lemma p_update_settings_one:
  assumes "p_update_settings provider type value st sid u t s = (None, s1)"
  shows "\<exists>r. filter (\<lambda>r. ns_provider r = provider \<and> ns_type r = type
                        \<and> ns_scope_type r = st \<and> ns_scope_identifier r = sid
                        \<and> ns_user_id r = u \<and> ns_team_id r = t) (settings s1) = [r]
             \<and> ns_value r = value"
proof -
  let ?k = "\<lambda>r::('a, 'b) NotificationSetting. ns_provider r = provider \<and> ns_type r = type
                        \<and> ns_scope_type r = st \<and> ns_scope_identifier r = sid
                        \<and> ns_user_id r = u \<and> ns_team_id r = t"
  show ?thesis
  proof (cases "filter ?k (settings s)")
    case Nil
    then show ?thesis using assms by (auto simp: p_update_settings_def)
  next
    case (Cons r0 rest)
    note c = Cons
    show ?thesis
    proof (cases rest)
      case Nil
      let ?upd = "\<lambda>r::('a, 'b) NotificationSetting.
                    if ns_id r = ns_id r0 then r\<lparr>ns_value := value\<rparr> else r"
      have k: "\<And>r. ?k (?upd r) = ?k r" by simp
      have "filter ?k (map ?upd (settings s)) = map ?upd (filter ?k (settings s))"
        unfolding filter_map comp_def k ..
      then have m: "filter ?k (map ?upd (settings s)) = [r0\<lparr>ns_value := value\<rparr>]"
        using c Nil by simp
      show ?thesis
      proof (cases "ns_value r0 = value")
        case True
        then show ?thesis using assms c Nil by (auto simp: p_update_settings_def)
      next
        case False
        then have "settings s1 = map ?upd (settings s)"
          using assms c Nil by (auto simp: p_update_settings_def)
        then show ?thesis using m by simp
      qed
    next
      case (Cons r1 rest')
      then show ?thesis using assms c by (simp add: p_update_settings_def)
    qed
  qed
qed

lemma p_update_settings_noop:
  assumes "filter (\<lambda>r. ns_provider r = provider \<and> ns_type r = type
                        \<and> ns_scope_type r = st \<and> ns_scope_identifier r = sid
                        \<and> ns_user_id r = u \<and> ns_team_id r = t) (settings s) = [r]"
    and "ns_value r = value"
  shows "p_update_settings provider type value st sid u t s = (None, s)"
  using assms by (simp add: p_update_settings_def)

subsection \<open>Reset to the default and repeated writes\<close>

lemma and_then_None:
  "and_then r f = (None, s') \<Longrightarrow> \<exists>s1. r = (None, s1) \<and> f s1 = (None, s')"
  by (cases r) (auto simp: and_then_def split: option.splits)

lemma and_then_settings:
  assumes "\<And>z. settings (snd (f z)) = settings z"
  shows "settings (snd (and_then r f)) = settings (snd r)"
  using assms by (cases r) (auto simp: and_then_def split: option.splits)

lemma and_then_simps [simp]:
  "and_then (Some e, s) f = (Some e, s)"
  "and_then (None, s) f = f s"
  by (simp_all add: and_then_def)

lemma find_settings_key:
  assumes "find_settings provider type user_id team_id project organization = Inr q"
    and "get_scope team_id user_id project organization = Inr (ns_scope_type r, ns_scope_identifier r)"
    and "ns_provider r = provider" and "ns_type r = type"
    and "ns_user_id r = user_id" and "ns_team_id r = team_id"
  shows "q r"
  using assms
  by (auto simp: find_settings_def Let_def add_if_truthy_def p_filter_def truthy_def
      truthy_ids_def column_in_def split: option.splits if_splits)

text \<open>
  Claim C2. For a single recipient (a user or a team, of an id other than zero) and
  the scope the resolver gives, \<^verbatim>\<open>update_settings\<close> with the value \<open>DEFAULT\<close> leaves no
  stored setting of the key (provider, type, scope, recipient): the settings the
  lookup of that key selects are deleted and all the others are kept, no row holding
  \<open>DEFAULT\<close> is written in their place, and \<^verbatim>\<open>get_settings\<close> for the same arguments
  then returns \<open>DEFAULT\<close>. This holds of the store the call leaves, also when the
  double write or the rebuild of the projection that follow the deletion raise.
\<close>

theorem reset_to_default:
  assumes rc: "(user_id = Some n \<and> team_id = None) \<or> (user_id = None \<and> team_id = Some n)"
    and n: "n \<noteq> 0"
    and gs: "get_scope team_id user_id project organization = Inr (scope_type, scope_identifier)"
    and nm: "NOTIFICATION_SCOPE_TYPE cfg scope_type = Some scope_name"
  shows "get_settings provider type user_id team_id project organization
           (snd (update_settings cfg provider type DEFAULT None user_id team_id project
                   organization None skip s)) = Inr DEFAULT
       \<and> filter (\<lambda>r. ns_provider r = provider \<and> ns_type r = type
                    \<and> ns_scope_type r = scope_type \<and> ns_scope_identifier r = scope_identifier
                    \<and> ns_user_id r = user_id \<and> ns_team_id r = team_id)
           (settings (snd (update_settings cfg provider type DEFAULT None user_id team_id
                             project organization None skip s))) = []
       \<and> (\<exists>q. find_settings provider type user_id team_id project organization = Inr q
              \<and> settings (snd (update_settings cfg provider type DEFAULT None user_id team_id
                                  project organization None skip s))
                  = filter (\<lambda>r. \<not> q r) (settings s))"
proof -
  let ?s' = "snd (update_settings cfg provider type DEFAULT None user_id team_id project
                   organization None skip s)"
  obtain q where q: "find_settings provider type user_id team_id project organization = Inr q"
    using rc n gs by (auto simp: find_settings_def add_if_truthy_def)
  from rc gs obtain ev where run:
    "update_settings cfg provider type DEFAULT None user_id team_id project organization
       None skip s
     = and_then (remove_settings cfg provider type None user_id team_id project
                 organization (s\<lparr>analytics := analytics s @ [ev]\<rparr>))
               (double_write cfg type DEFAULT scope_type scope_identifier user_id team_id skip)"
    by (auto simp: update_settings_def Let_def)
  have rm: "settings (snd (remove_settings cfg provider type None user_id team_id project
                 organization (s\<lparr>analytics := analytics s @ [ev]\<rparr>)))
            = filter (\<lambda>r. \<not> q r) (settings s)"
    by (simp add: remove_settings_def gs nm q qs_delete_def Let_def)
  have dw: "\<And>z. settings (snd (double_write cfg type DEFAULT scope_type scope_identifier
                               user_id team_id skip z)) = settings z"
    by (simp add: double_write_frame)
  have s': "settings ?s' = filter (\<lambda>r. \<not> q r) (settings s)"
    unfolding run and_then_settings [OF dw] rm ..
  have g: "get_settings provider type user_id team_id project organization ?s' = Inr DEFAULT"
    by (simp add: get_settings_def q qs_list_def s')
  have "\<And>r. ns_provider r = provider \<and> ns_type r = type
                    \<and> ns_scope_type r = scope_type \<and> ns_scope_identifier r = scope_identifier
                    \<and> ns_user_id r = user_id \<and> ns_team_id r = team_id \<Longrightarrow> q r"
    by (rule find_settings_key [OF q]) (simp_all add: gs)
  then have k: "filter (\<lambda>r. ns_provider r = provider \<and> ns_type r = type
                    \<and> ns_scope_type r = scope_type \<and> ns_scope_identifier r = scope_identifier
                    \<and> ns_user_id r = user_id \<and> ns_team_id r = team_id) (settings ?s') = []"
    unfolding s' filter_filter by (intro filter_False) blast
  from g k q s' show ?thesis by blast
qed

text \<open>
  Claim C4, as amended. When \<^verbatim>\<open>update_settings\<close> with a value other than \<open>DEFAULT\<close>
  has returned, the same call once more returns as well, leaves the settings table as
  it is (no second row, no overwrite) with exactly one setting of that key, holding
  that value; the analytics event is recorded by every call, so the log holds it
  twice.
\<close>

theorem update_settings_twice:
  assumes first: "update_settings cfg provider type value' None user_id team_id project
                    organization None skip s = (None, s1)"
    and nd: "value' \<noteq> DEFAULT"
  shows "\<exists>s2 ev. update_settings cfg provider type value' None user_id team_id project
                    organization None skip s1 = (None, s2)
           \<and> settings s2 = settings s1
           \<and> (\<exists>r. filter (\<lambda>r. ns_provider r = provider \<and> ns_type r = type
                    \<and> get_scope team_id user_id project organization
                        = Inr (ns_scope_type r, ns_scope_identifier r)
                    \<and> ns_user_id r = user_id \<and> ns_team_id r = team_id) (settings s2) = [r]
                  \<and> ns_value r = value')
           \<and> analytics s1 = analytics s @ [ev]
           \<and> analytics s2 = analytics s @ [ev, ev]"
proof -
  from first nd obtain ev st sid where
    gs: "get_scope team_id user_id project organization = Inr (st, sid)"
    and unf: "\<And>z. update_settings cfg provider type value' None user_id team_id project
                    organization None skip z =
               and_then (p_update_settings provider type value' st sid user_id team_id
                           (z\<lparr>analytics := analytics z @ [ev]\<rparr>))
                 (double_write cfg type value' st sid user_id team_id skip)"
    by (cases user_id; cases team_id)
       (auto simp: update_settings_def get_scope_def Let_def split: sum.splits if_splits prod.splits)
  let ?k = "\<lambda>r::('a, 'b) NotificationSetting. ns_provider r = provider \<and> ns_type r = type
                        \<and> ns_scope_type r = st \<and> ns_scope_identifier r = sid
                        \<and> ns_user_id r = user_id \<and> ns_team_id r = team_id"
  have keq: "(\<lambda>r::('a, 'b) NotificationSetting. ns_provider r = provider \<and> ns_type r = type
                    \<and> get_scope team_id user_id project organization
                        = Inr (ns_scope_type r, ns_scope_identifier r)
                    \<and> ns_user_id r = user_id \<and> ns_team_id r = team_id) = ?k"
    by (auto simp: gs fun_eq_iff)
  from first [unfolded unf] obtain sa where
    pu: "p_update_settings provider type value' st sid user_id team_id
           (s\<lparr>analytics := analytics s @ [ev]\<rparr>) = (None, sa)"
    and dw: "double_write cfg type value' st sid user_id team_id skip sa = (None, s1)"
    using and_then_None by blast
  from p_update_settings_one [OF pu] obtain r where
    one: "filter ?k (settings sa) = [r]" and v: "ns_value r = value'"
    by blast
  have f1: "settings s1 = settings sa" "analytics s1 = analytics sa"
    using double_write_frame [of cfg type value' st sid user_id team_id skip sa] dw by simp_all
  have a1: "analytics sa = analytics s @ [ev]"
    using p_update_settings_frame [of provider type value' st sid user_id team_id
            "s\<lparr>analytics := analytics s @ [ev]\<rparr>"] pu by simp
  let ?z = "s1\<lparr>analytics := analytics s1 @ [ev]\<rparr>"
  have noop: "p_update_settings provider type value' st sid user_id team_id ?z = (None, ?z)"
    by (rule p_update_settings_noop [where r = r]) (simp_all add: f1 one v)
  have "fst (double_write cfg type value' st sid user_id team_id skip ?z) = None"
    using double_write_error [of ?z sa cfg type value' st sid user_id team_id skip] dw f1
    by simp
  then obtain s2 where
    dw2: "double_write cfg type value' st sid user_id team_id skip ?z = (None, s2)"
    by (cases "double_write cfg type value' st sid user_id team_id skip ?z") auto
  have f2: "settings s2 = settings s1" "analytics s2 = analytics s1 @ [ev]"
    using double_write_frame [of cfg type value' st sid user_id team_id skip ?z] dw2 by simp_all
  have second: "update_settings cfg provider type value' None user_id team_id project
                    organization None skip s1 = (None, s2)"
    by (simp add: unf noop and_then_def dw2)
  have "filter ?k (settings s2) = [r]" using f2 f1 one by simp
  with second f2 f1 a1 v show ?thesis
    unfolding keq by auto
qed

subsection \<open>Queries for a list of recipients\<close>

lemma id_in_ids_of:
  "id_in c (ids_of a recipients) = (\<exists>rc\<in>set recipients. fst rc = a \<and> c = Some (snd rc))"
  by (cases c) (auto simp: id_in_def ids_of_def)

lemma mem_ids_of:
  "n \<in> set (ids_of a recipients) = (\<exists>rc\<in>set recipients. fst rc = a \<and> n = snd rc)"
  by (auto simp: ids_of_def)

lemma ids_of_empty:
  "ids_of ActorType_TEAM recipients = [] \<and> ids_of ActorType_USER recipients = [] \<longleftrightarrow> recipients = []"
proof (cases recipients)
  case Nil
  then show ?thesis by (simp add: ids_of_def)
next
  case (Cons rc rest)
  then show ?thesis by (cases "fst rc") (auto simp: ids_of_def)
qed

lemma owned_by_cases:
  "owned_by rc r \<longleftrightarrow>
     (fst rc = ActorType_TEAM \<and> ns_team_id r = Some (snd rc))
     \<or> (fst rc = ActorType_USER \<and> ns_user_id r = Some (snd rc))"
  by (cases "fst rc") (simp_all add: owned_by_def)

lemma own_scope_cases:
  "(ns_scope_type r, ns_scope_identifier r) = own_scope rc \<longleftrightarrow>
     (fst rc = ActorType_USER \<and> ns_scope_type r = USER \<and> ns_scope_identifier r = snd rc)
     \<or> (fst rc = ActorType_TEAM \<and> ns_scope_type r = TEAM \<and> ns_scope_identifier r = snd rc)"
  by (cases "fst rc") (auto simp: own_scope_def)

lemma owned_by_some:
  "(\<exists>rc\<in>set recipients. owned_by rc r) \<longleftrightarrow>
     (id_in (ns_team_id r) (ids_of ActorType_TEAM recipients)
      \<or> id_in (ns_user_id r) (ids_of ActorType_USER recipients))"
  unfolding id_in_ids_of owned_by_cases by blast

lemma own_scope_some:
  "(\<exists>rc\<in>set recipients. (ns_scope_type r, ns_scope_identifier r) = own_scope rc) \<longleftrightarrow>
     ((ns_scope_type r = USER \<and> ns_scope_identifier r \<in> set (ids_of ActorType_USER recipients))
      \<or> (ns_scope_type r = TEAM
          \<and> ns_scope_identifier r \<in> set (ids_of ActorType_TEAM recipients)))"
  unfolding mem_ids_of own_scope_cases by blast

text \<open>
  Claim C9, as amended. For an empty list of recipients
  \<^verbatim>\<open>get_for_recipient_by_parent\<close> returns the empty query. Otherwise, where
  \<^verbatim>\<open>get_scope_type\<close> gives a scope tier for the alert type, it selects exactly the
  settings of that type that are owned by one of the recipients (the user column or
  the team column holds the recipient's id) and whose scope is that tier with the id
  of the parent, or the own scope of one of the recipients (\<open>USER\<close> with a given
  user id, \<open>TEAM\<close> with a given team id). The tier comes from the alert type; when
  it is the natural tier of the parent the query is the one the specification words.
\<close>

theorem get_for_recipient_by_parent_query:
  "get_for_recipient_by_parent cfg type' parent [] = Inr qs_none
   \<and> (recipients \<noteq> [] \<longrightarrow> get_scope_type cfg type' = Inr tier \<longrightarrow>
        (\<exists>q. get_for_recipient_by_parent cfg type' parent recipients = Inr q
             \<and> (\<forall>r. q r \<longleftrightarrow>
                   ns_type r = type'
                   \<and> (\<exists>rc\<in>set recipients. owned_by rc r)
                   \<and> ((ns_scope_type r, ns_scope_identifier r) = (tier, parent_id parent)
                      \<or> (\<exists>rc\<in>set recipients.
                            (ns_scope_type r, ns_scope_identifier r) = own_scope rc)))
             \<and> (tier = natural_tier parent \<longrightarrow>
                   q = spec_for_recipient_by_parent type' parent recipients)))"
proof -
  have a: "get_for_recipient_by_parent cfg type' parent [] = Inr qs_none"
    by (simp add: get_for_recipient_by_parent_def ids_of_def)
  have b: "\<exists>q. get_for_recipient_by_parent cfg type' parent recipients = Inr q
             \<and> (\<forall>r. q r \<longleftrightarrow>
                   ns_type r = type'
                   \<and> (\<exists>rc\<in>set recipients. owned_by rc r)
                   \<and> ((ns_scope_type r, ns_scope_identifier r) = (tier, parent_id parent)
                      \<or> (\<exists>rc\<in>set recipients.
                            (ns_scope_type r, ns_scope_identifier r) = own_scope rc)))
             \<and> (tier = natural_tier parent \<longrightarrow>
                   q = spec_for_recipient_by_parent type' parent recipients)"
    if ne: "recipients \<noteq> []" and t: "get_scope_type cfg type' = Inr tier"
  proof -
    have ne': "\<not> (ids_of ActorType_TEAM recipients = [] \<and> ids_of ActorType_USER recipients = [])"
      using ne ids_of_empty by blast
    obtain q where q: "get_for_recipient_by_parent cfg type' parent recipients = Inr q"
      and qd: "\<And>r. q r \<longleftrightarrow>
                 ((ns_scope_type r = tier \<and> ns_scope_identifier r = parent_id parent)
                   \<or> (ns_scope_type r = USER
                       \<and> ns_scope_identifier r \<in> set (ids_of ActorType_USER recipients))
                   \<or> (ns_scope_type r = TEAM
                       \<and> ns_scope_identifier r \<in> set (ids_of ActorType_TEAM recipients)))
                 \<and> (id_in (ns_team_id r) (ids_of ActorType_TEAM recipients)
                    \<or> id_in (ns_user_id r) (ids_of ActorType_USER recipients))
                 \<and> ns_type r = type'"
      using ne' t by (auto simp: get_for_recipient_by_parent_def Let_def)
    have c: "\<forall>r. q r \<longleftrightarrow>
                   ns_type r = type'
                   \<and> (\<exists>rc\<in>set recipients. owned_by rc r)
                   \<and> ((ns_scope_type r, ns_scope_identifier r) = (tier, parent_id parent)
                      \<or> (\<exists>rc\<in>set recipients.
                            (ns_scope_type r, ns_scope_identifier r) = own_scope rc))"
      unfolding owned_by_some own_scope_some qd by auto
    have d: "tier = natural_tier parent \<Longrightarrow> q = spec_for_recipient_by_parent type' parent recipients"
      by (rule ext) (simp add: spec_for_recipient_by_parent_def qd)
    from q c d show ?thesis by blast
  qed
  from a b show ?thesis by blast
qed

text \<open>
  Claim C5. In the resolution of the subscribers of a parent, when a recipient has a
  setting scoped to the parent for a provider and the alert type, that setting alone
  decides whether the recipient is listed under the provider, whatever the
  recipient's own global setting says: the recipient is listed iff he is among the
  recipients and the value of that setting is not \<open>NEVER\<close> (\<open>DEFAULT\<close> being
  resolved by the default policy). In particular a project setting \<open>NEVER\<close>
  excludes the recipient from the provider.
\<close>

theorem parent_scope_wins:
  assumes "NOTIFICATION_SETTING_TYPES cfg type = Some type_name"
    and "records_at cfg type_name provider recipient (natural_tier parent, parent_id parent) s
           = r # rest"
  shows "\<exists>m. filter_to_accepting_recipients cfg parent recipients (Some type) s = Inr m
           \<and> (recipient \<in> set (m provider) \<longleftrightarrow>
                recipient \<in> set recipients
                \<and> (if ns_value r = DEFAULT then default_policy cfg type_name provider
                    else ns_value r \<noteq> NEVER))
           \<and> (ns_value r = NEVER \<longrightarrow> recipient \<notin> set (m provider))"
  using assms
  by (cases parent)
     (auto simp: filter_to_accepting_recipients_def get_notification_recipients_def
        subscribed_def effective_value_def Let_def)

subsection \<open>Upserts and deletions on the projection table\<close>

lemma provider_key_unique:
  "provider_key bq tn r \<Longrightarrow> provider_key bq' tn' r \<Longrightarrow> bq' = bq \<and> tn' = tn"
  by (cases bq; cases bq') (auto simp: provider_key_def base_matches_def)

lemma provider_key_value [simp]:
  "provider_key bq tn (r\<lparr>nsp_value := v\<rparr>) = provider_key bq tn r"
  by (simp add: provider_key_def base_matches_def)

lemma filter_map_unchanged:
  assumes "\<And>x. x \<in> set xs \<Longrightarrow> P (f x) = P x" and "\<And>x. x \<in> set xs \<Longrightarrow> P x \<Longrightarrow> f x = x"
  shows "filter P (map f xs) = filter P xs"
  using assms by (induction xs) auto

lemma create_or_update_same:
  "filter (provider_key bq tn) (providers (provider_create_or_update bq tn v s)) \<noteq> []
   \<and> (\<forall>r\<in>set (filter (provider_key bq tn) (providers (provider_create_or_update bq tn v s))).
         nsp_value r = v)"
proof (cases "filter (provider_key bq tn) (providers s) = []")
  case True
  then show ?thesis
    by (simp add: provider_create_or_update_def provider_key_def base_matches_def)
next
  case False
  then obtain x where x: "x \<in> set (providers s)" "provider_key bq tn x"
    by (auto simp: filter_empty_conv)
  have "provider_key bq tn (x\<lparr>nsp_value := v\<rparr>)" using x by simp
  then have "\<exists>y\<in>set (map (\<lambda>r. if provider_key bq tn r then r\<lparr>nsp_value := v\<rparr> else r)
                         (providers s)). provider_key bq tn y"
    using x by (intro bexI [where x = "x\<lparr>nsp_value := v\<rparr>"]) (auto simp: image_iff intro!: bexI [where x = x])
  then show ?thesis
    using False by (auto simp: provider_create_or_update_def filter_empty_conv)
qed

lemma create_or_update_other:
  assumes "bq' \<noteq> bq \<or> tn' \<noteq> tn"
  shows "filter (provider_key bq' tn') (providers (provider_create_or_update bq tn v s))
           = filter (provider_key bq' tn') (providers s)"
proof -
  have n: "\<And>r. provider_key bq tn r \<Longrightarrow> \<not> provider_key bq' tn' r"
    using assms provider_key_unique by blast
  have new: "\<not> provider_key bq' tn'
                 \<lparr>nsp_provider = bq_provider bq, nsp_type = tn,
                  nsp_scope_type = bq_scope_type bq,
                  nsp_scope_identifier = bq_scope_identifier bq,
                  nsp_user_id = bq_user_id bq, nsp_team_id = bq_team_id bq,
                  nsp_value = v\<rparr>"
    by (rule n) (simp add: provider_key_def base_matches_def)
  have m: "filter (provider_key bq' tn')
             (map (\<lambda>r. if provider_key bq tn r then r\<lparr>nsp_value := v\<rparr> else r) (providers s))
           = filter (provider_key bq' tn') (providers s)"
    by (rule filter_map_unchanged) (use n in auto)
  show ?thesis
    using new m by (simp add: provider_create_or_update_def)
qed

lemma those_map_set:
  "those (map f xs) = Some ys \<Longrightarrow> set ys = {y. \<exists>x\<in>set xs. f x = Some y}"
proof (induction xs arbitrary: ys)
  case Nil
  then show ?case by simp
next
  case (Cons x xs)
  then show ?case by (auto split: option.splits)
qed

lemma classify_sets:
  "classify cfg rows (enabled0, disabled0) = Inr (enabled, disabled) \<Longrightarrow>
   (p \<in> enabled t \<longleftrightarrow>
      p \<in> enabled0 t \<or> (\<exists>r\<in>set rows. EXTERNAL_PROVIDERS cfg (ns_provider r) = Some p
                                       \<and> ns_type r = t \<and> ns_value r \<noteq> NEVER))
   \<and> (p \<in> disabled t \<longleftrightarrow>
      p \<in> disabled0 t \<or> (\<exists>r\<in>set rows. EXTERNAL_PROVIDERS cfg (ns_provider r) = Some p
                                       \<and> ns_type r = t \<and> ns_value r = NEVER))"
proof (induction rows arbitrary: enabled0 disabled0)
  case Nil
  then show ?case by simp
next
  case (Cons r rows)
  from Cons.prems obtain q where q: "EXTERNAL_PROVIDERS cfg (ns_provider r) = Some q"
    by (auto split: option.splits)
  show ?case
  proof (cases "ns_value r = NEVER")
    case True
    then have "classify cfg rows (enabled0, disabled0(ns_type r := insert q (disabled0 (ns_type r))))
                 = Inr (enabled, disabled)"
      using Cons.prems q by (simp add: Let_def)
    from Cons.IH [OF this] show ?thesis using True q by auto
  next
    case False
    then have "classify cfg rows (enabled0(ns_type r := insert q (enabled0 (ns_type r))), disabled0)
                 = Inr (enabled, disabled)"
      using Cons.prems q by (simp add: Let_def)
    from Cons.IH [OF this] show ?thesis using False q by auto
  qed
qed

subsection \<open>The loop over the alert types\<close>

lemma delete_rows:
  "filter (provider_key bq' tn')
     (filter (\<lambda>r. \<not> (base_matches bq r \<and> nsp_type r \<in> N)) rows)
   = (if bq' = bq \<and> tn' \<in> N then [] else filter (provider_key bq' tn') rows)"
proof (cases "bq' = bq \<and> tn' \<in> N")
  case True
  then show ?thesis by (auto simp: filter_empty_conv provider_key_def)
next
  case False
  have "\<And>r. provider_key bq' tn' r \<Longrightarrow> \<not> (base_matches bq r \<and> nsp_type r \<in> N)"
  proof
    fix r assume k: "provider_key bq' tn' r" and b: "base_matches bq r \<and> nsp_type r \<in> N"
    then have "provider_key bq (nsp_type r) r" by (simp add: provider_key_def)
    from provider_key_unique [OF this k] b False show False by simp
  qed
  then have "filter (provider_key bq' tn')
     (filter (\<lambda>r. \<not> (base_matches bq r \<and> nsp_type r \<in> N)) rows) = filter (provider_key bq' tn') rows"
    unfolding filter_filter by (intro filter_cong) auto
  with False show ?thesis by (simp only: if_False)
qed

lemma types_loop_post:
  assumes "types_loop cfg enabled disabled bq ttd ts s = (None, s')"
    and "inj_on (NOTIFICATION_SETTING_TYPES cfg) (set ttd \<union> set ts)"
    and "\<forall>t\<in>set ttd. bq_provider bq \<notin> enabled t \<and> bq_provider bq \<notin> disabled t"
  shows "(\<forall>t\<in>set ttd \<union> set ts. \<forall>tn. NOTIFICATION_SETTING_TYPES cfg t = Some tn \<longrightarrow>
            (bq_provider bq \<in> enabled t \<longrightarrow>
               filter (provider_key bq tn) (providers s') \<noteq> []
               \<and> (\<forall>r\<in>set (filter (provider_key bq tn) (providers s')).
                     nsp_value r = OptionEnum_ALWAYS))
            \<and> (bq_provider bq \<notin> enabled t \<and> bq_provider bq \<in> disabled t \<longrightarrow>
               filter (provider_key bq tn) (providers s') \<noteq> []
               \<and> (\<forall>r\<in>set (filter (provider_key bq tn) (providers s')).
                     nsp_value r = OptionEnum_NEVER))
            \<and> (bq_provider bq \<notin> enabled t \<and> bq_provider bq \<notin> disabled t \<longrightarrow>
               filter (provider_key bq tn) (providers s') = []))
       \<and> (\<forall>bq' tn'. bq' \<noteq> bq
                      \<or> (\<forall>t\<in>set ttd \<union> set ts. NOTIFICATION_SETTING_TYPES cfg t \<noteq> Some tn') \<longrightarrow>
            filter (provider_key bq' tn') (providers s')
              = filter (provider_key bq' tn') (providers s))"
  using assms
proof (induction ts arbitrary: ttd s)
  case Nil
  from Nil.prems(1) obtain names where
    n: "those (map (NOTIFICATION_SETTING_TYPES cfg) ttd) = Some names"
    and s': "providers s' = filter (\<lambda>r. \<not> (base_matches bq r \<and> nsp_type r \<in> set names))
                              (providers s)"
    by (auto split: option.splits)
  have names: "set names = {y. \<exists>x\<in>set ttd. NOTIFICATION_SETTING_TYPES cfg x = Some y}"
    using those_map_set [OF n] .
  show ?case
    unfolding s' delete_rows names using Nil.prems(3) by auto
next
  case (Cons t ts)
  let ?NT = "NOTIFICATION_SETTING_TYPES cfg"
  from Cons.prems(1) obtain tn0 where tn0: "?NT t = Some tn0"
    by (auto split: option.splits)
  have inj: "inj_on ?NT (set ttd \<union> set (t # ts))" using Cons.prems(2) .
  have other: "\<And>t'. t' \<in> set ttd \<union> set ts \<Longrightarrow> t' \<noteq> t \<Longrightarrow> ?NT t' \<noteq> Some tn0"
    using inj tn0 unfolding inj_on_def by (metis Un_iff list.set_intros(1,2))
  show ?case
  proof (cases "bq_provider bq \<in> enabled t \<or> bq_provider bq \<in> disabled t")
    case False
    then have run: "types_loop cfg enabled disabled bq (ttd @ [t]) ts s = (None, s')"
      using Cons.prems(1) tn0 by simp
    have i: "inj_on ?NT (set (ttd @ [t]) \<union> set ts)"
      using inj by (simp add: Un_commute insert_commute)
    have d: "\<forall>x\<in>set (ttd @ [t]). bq_provider bq \<notin> enabled x \<and> bq_provider bq \<notin> disabled x"
      using Cons.prems(3) False by auto
    have eq: "set (ttd @ [t]) \<union> set ts = set ttd \<union> set (t # ts)" by auto
    from Cons.IH [OF run i d] show ?thesis unfolding eq .
  next
    case True
    define v where "v = (if bq_provider bq \<in> enabled t then OptionEnum_ALWAYS else OptionEnum_NEVER)"
    let ?s1 = "provider_create_or_update bq tn0 v s"
    have run: "types_loop cfg enabled disabled bq ttd ts ?s1 = (None, s')"
      using Cons.prems(1) tn0 True by (auto simp: v_def)
    have i: "inj_on ?NT (set ttd \<union> set ts)"
      using inj by (rule inj_on_subset) auto
    note IH = Cons.IH [OF run i Cons.prems(3)]
    have tnot: "t \<notin> set ttd" using True Cons.prems(3) by blast
    have C: "\<forall>bq' tn'. bq' \<noteq> bq
                      \<or> (\<forall>x\<in>set ttd \<union> set (t # ts). ?NT x \<noteq> Some tn') \<longrightarrow>
            filter (provider_key bq' tn') (providers s')
              = filter (provider_key bq' tn') (providers s)"
    proof (intro allI impI)
      fix bq' tn'
      assume a: "bq' \<noteq> bq \<or> (\<forall>x\<in>set ttd \<union> set (t # ts). ?NT x \<noteq> Some tn')"
      then have "bq' \<noteq> bq \<or> (\<forall>x\<in>set ttd \<union> set ts. ?NT x \<noteq> Some tn')" by auto
      with IH have "filter (provider_key bq' tn') (providers s')
                      = filter (provider_key bq' tn') (providers ?s1)" by blast
      moreover have "bq' \<noteq> bq \<or> tn' \<noteq> tn0" using a tn0 by auto
      ultimately show "filter (provider_key bq' tn') (providers s')
              = filter (provider_key bq' tn') (providers s)"
        using create_or_update_other by metis
    qed
    have A: "(bq_provider bq \<in> enabled x \<longrightarrow>
               filter (provider_key bq tn) (providers s') \<noteq> []
               \<and> (\<forall>r\<in>set (filter (provider_key bq tn) (providers s')).
                     nsp_value r = OptionEnum_ALWAYS))
            \<and> (bq_provider bq \<notin> enabled x \<and> bq_provider bq \<in> disabled x \<longrightarrow>
               filter (provider_key bq tn) (providers s') \<noteq> []
               \<and> (\<forall>r\<in>set (filter (provider_key bq tn) (providers s')).
                     nsp_value r = OptionEnum_NEVER))
            \<and> (bq_provider bq \<notin> enabled x \<and> bq_provider bq \<notin> disabled x \<longrightarrow>
               filter (provider_key bq tn) (providers s') = [])"
      if x: "x \<in> set ttd \<union> set (t # ts)" and tn: "?NT x = Some tn" for x tn
    proof (cases "x \<in> set ttd \<union> set ts")
      case True
      with IH tn show ?thesis by blast
    next
      case False
      then have xt: "x = t" and nts: "t \<notin> set ts" using x by auto
      have tn': "tn = tn0" using tn tn0 xt by simp
      have "\<forall>y\<in>set ttd \<union> set ts. ?NT y \<noteq> Some tn0"
        using other tnot nts by blast
      with IH have "filter (provider_key bq tn0) (providers s')
                      = filter (provider_key bq tn0) (providers ?s1)" by blast
      then show ?thesis
        using create_or_update_same [of bq tn0 v s] True
        unfolding tn' xt v_def by auto
    qed
    from A C show ?thesis by blast
  qed
qed

subsection \<open>The loop over the providers\<close>

lemma providers_loop_post:
  assumes "providers_loop cfg enabled disabled u t pst psi ps s = (None, s')"
    and "inj_on (NOTIFICATION_SETTING_TYPES cfg) (fst ` set (VALID_VALUES_FOR_KEY_V2 cfg))"
  shows "(\<forall>p\<in>set ps. \<forall>ty\<in>fst ` set (VALID_VALUES_FOR_KEY_V2 cfg). \<forall>tn.
            NOTIFICATION_SETTING_TYPES cfg ty = Some tn \<longrightarrow>
            (p \<in> enabled ty \<longrightarrow>
               filter (provider_key \<lparr>bq_provider = p, bq_user_id = u, bq_team_id = t,
                         bq_scope_type = pst, bq_scope_identifier = psi\<rparr> tn) (providers s') \<noteq> []
               \<and> (\<forall>r\<in>set (filter (provider_key \<lparr>bq_provider = p, bq_user_id = u,
                         bq_team_id = t, bq_scope_type = pst, bq_scope_identifier = psi\<rparr> tn)
                         (providers s')).
                     nsp_value r = OptionEnum_ALWAYS))
            \<and> (p \<notin> enabled ty \<and> p \<in> disabled ty \<longrightarrow>
               filter (provider_key \<lparr>bq_provider = p, bq_user_id = u, bq_team_id = t,
                         bq_scope_type = pst, bq_scope_identifier = psi\<rparr> tn) (providers s') \<noteq> []
               \<and> (\<forall>r\<in>set (filter (provider_key \<lparr>bq_provider = p, bq_user_id = u,
                         bq_team_id = t, bq_scope_type = pst, bq_scope_identifier = psi\<rparr> tn)
                         (providers s')).
                     nsp_value r = OptionEnum_NEVER))
            \<and> (p \<notin> enabled ty \<and> p \<notin> disabled ty \<longrightarrow>
               filter (provider_key \<lparr>bq_provider = p, bq_user_id = u, bq_team_id = t,
                         bq_scope_type = pst, bq_scope_identifier = psi\<rparr> tn) (providers s') = []))
       \<and> (\<forall>p tn. p \<notin> set ps \<longrightarrow>
            filter (provider_key \<lparr>bq_provider = p, bq_user_id = u, bq_team_id = t,
                         bq_scope_type = pst, bq_scope_identifier = psi\<rparr> tn) (providers s')
            = filter (provider_key \<lparr>bq_provider = p, bq_user_id = u, bq_team_id = t,
                         bq_scope_type = pst, bq_scope_identifier = psi\<rparr> tn) (providers s))"
  using assms(1)
proof (induction ps arbitrary: s)
  case Nil
  then show ?case by simp
next
  case (Cons p0 ps)
  let ?bq = "\<lambda>p. \<lparr>bq_provider = p, bq_user_id = u, bq_team_id = t,
                         bq_scope_type = pst, bq_scope_identifier = psi\<rparr>"
  let ?keys = "map fst (VALID_VALUES_FOR_KEY_V2 cfg)"
  from Cons.prems obtain s1 where
    tl: "types_loop cfg enabled disabled (?bq p0) [] ?keys s = (None, s1)"
    and pl: "providers_loop cfg enabled disabled u t pst psi ps s1 = (None, s')"
    using and_then_None by fastforce
  have inj: "inj_on (NOTIFICATION_SETTING_TYPES cfg) (set [] \<union> set ?keys)"
    using assms(2) by simp
  have pre: "\<forall>x\<in>set []. bq_provider (?bq p0) \<notin> enabled x \<and> bq_provider (?bq p0) \<notin> disabled x"
    by simp
  note tp = types_loop_post [OF tl inj pre, unfolded base_query.select_convs]
  note IH = Cons.IH [OF pl]
  have keep: "\<And>p tn. p \<notin> set ps \<Longrightarrow>
                filter (provider_key (?bq p) tn) (providers s')
                  = filter (provider_key (?bq p) tn) (providers s1)"
    using IH by blast
  have other: "\<And>p tn. p \<noteq> p0 \<Longrightarrow>
                filter (provider_key (?bq p) tn) (providers s1)
                  = filter (provider_key (?bq p) tn) (providers s)"
  proof -
    fix p tn assume "p \<noteq> p0"
    then have "?bq p \<noteq> ?bq p0" by simp
    with tp show "filter (provider_key (?bq p) tn) (providers s1)
                  = filter (provider_key (?bq p) tn) (providers s)" by blast
  qed
  have A: "(p \<in> enabled ty \<longrightarrow>
               filter (provider_key (?bq p) tn) (providers s') \<noteq> []
               \<and> (\<forall>r\<in>set (filter (provider_key (?bq p) tn) (providers s')).
                     nsp_value r = OptionEnum_ALWAYS))
            \<and> (p \<notin> enabled ty \<and> p \<in> disabled ty \<longrightarrow>
               filter (provider_key (?bq p) tn) (providers s') \<noteq> []
               \<and> (\<forall>r\<in>set (filter (provider_key (?bq p) tn) (providers s')).
                     nsp_value r = OptionEnum_NEVER))
            \<and> (p \<notin> enabled ty \<and> p \<notin> disabled ty \<longrightarrow>
               filter (provider_key (?bq p) tn) (providers s') = [])"
    if p: "p \<in> set (p0 # ps)" and ty: "ty \<in> fst ` set (VALID_VALUES_FOR_KEY_V2 cfg)"
      and tn: "NOTIFICATION_SETTING_TYPES cfg ty = Some tn" for p ty tn
  proof (cases "p \<in> set ps")
    case True
    with IH ty tn show ?thesis by blast
  next
    case False
    then have pp: "p = p0" using p by simp
    have k: "filter (provider_key (?bq p0) tn) (providers s')
               = filter (provider_key (?bq p0) tn) (providers s1)"
      using keep False pp by blast
    have tyk: "ty \<in> set [] \<union> set ?keys" using ty by simp
    from tp have "\<forall>ty\<in>set [] \<union> set ?keys. \<forall>tn. NOTIFICATION_SETTING_TYPES cfg ty = Some tn \<longrightarrow>
            (p0 \<in> enabled ty \<longrightarrow>
               filter (provider_key (?bq p0) tn) (providers s1) \<noteq> []
               \<and> (\<forall>r\<in>set (filter (provider_key (?bq p0) tn) (providers s1)).
                     nsp_value r = OptionEnum_ALWAYS))
            \<and> (p0 \<notin> enabled ty \<and> p0 \<in> disabled ty \<longrightarrow>
               filter (provider_key (?bq p0) tn) (providers s1) \<noteq> []
               \<and> (\<forall>r\<in>set (filter (provider_key (?bq p0) tn) (providers s1)).
                     nsp_value r = OptionEnum_NEVER))
            \<and> (p0 \<notin> enabled ty \<and> p0 \<notin> disabled ty \<longrightarrow>
               filter (provider_key (?bq p0) tn) (providers s1) = [])"
      by (rule conjunct1)
    from bspec [OF this tyk] tn show ?thesis unfolding pp k by blast
  qed
  have C: "filter (provider_key (?bq p) tn) (providers s')
            = filter (provider_key (?bq p) tn) (providers s)"
    if "p \<notin> set (p0 # ps)" for p tn
    using that keep [of p tn] other [of p tn] by simp
  from A C show ?case by blast
qed

subsection \<open>The projection after a rebuild\<close>

text \<open>
  Claim C1. Let \<^verbatim>\<open>update_provider_settings\<close> return for a single recipient, on a
  store whose settings obey the data model (no stored \<open>DEFAULT\<close>; a setting of scope
  \<open>USER\<close> or \<open>TEAM\<close> is keyed by the id of its own user or team), with distinct names
  for the alert types. Then for every provider of the catalog and every alert type
  of the table, a projection row of the recipient at his own scope exists iff the
  recipient has an own-scope setting for that provider and type with a value other
  than \<open>DEFAULT\<close>; and the value of such a row is \<open>ALWAYS\<close> iff such a setting has
  a value other than \<open>NEVER\<close>, and \<open>NEVER\<close> iff every such setting has the value
  \<open>NEVER\<close>. Settings scoped to a project or an organization do not occur in the
  statement: they have no influence on the projection.
\<close>

theorem projection_invariant:
  assumes run: "update_provider_settings cfg user_id team_id s = (None, s')"
    and single: "(user_id = None) \<noteq> (team_id = None)"
    and p: "provider \<in> set (PERSONAL_NOTIFICATION_PROVIDERS cfg)"
    and ty: "type \<in> fst ` set (VALID_VALUES_FOR_KEY_V2 cfg)"
    and tn: "NOTIFICATION_SETTING_TYPES cfg type = Some type_name"
    and inj: "inj_on (NOTIFICATION_SETTING_TYPES cfg) (fst ` set (VALID_VALUES_FOR_KEY_V2 cfg))"
    and wf: "\<forall>r\<in>set (settings s).
               ns_value r \<noteq> DEFAULT
               \<and> (ns_scope_type r = USER \<longrightarrow> ns_user_id r = Some (ns_scope_identifier r))
               \<and> (ns_scope_type r = TEAM \<longrightarrow> ns_team_id r = Some (ns_scope_identifier r))"
  shows "(filter (\<lambda>row. nsp_provider row = provider \<and> nsp_type row = type_name
                     \<and> nsp_user_id row = user_id \<and> nsp_team_id row = team_id
                     \<and> nsp_scope_type row
                         = (if team_id = None then ScopeEnum_USER else ScopeEnum_TEAM)
                     \<and> Some (nsp_scope_identifier row)
                         = (if team_id = None then user_id else team_id))
            (providers s') \<noteq> []
          \<longleftrightarrow> (\<exists>r\<in>set (settings s).
                 ns_user_id r = user_id \<and> ns_team_id r = team_id
                 \<and> (ns_scope_type r = USER \<or> ns_scope_type r = TEAM)
                 \<and> Some (ns_scope_identifier r) = (if team_id = None then user_id else team_id)
                 \<and> EXTERNAL_PROVIDERS cfg (ns_provider r) = Some provider \<and> ns_type r = type
                 \<and> ns_value r \<noteq> DEFAULT))
       \<and> (\<forall>row\<in>set (filter (\<lambda>row. nsp_provider row = provider \<and> nsp_type row = type_name
                     \<and> nsp_user_id row = user_id \<and> nsp_team_id row = team_id
                     \<and> nsp_scope_type row
                         = (if team_id = None then ScopeEnum_USER else ScopeEnum_TEAM)
                     \<and> Some (nsp_scope_identifier row)
                         = (if team_id = None then user_id else team_id))
            (providers s')).
            (nsp_value row = OptionEnum_ALWAYS
               \<longleftrightarrow> (\<exists>r\<in>set (settings s).
                 ns_user_id r = user_id \<and> ns_team_id r = team_id
                 \<and> (ns_scope_type r = USER \<or> ns_scope_type r = TEAM)
                 \<and> Some (ns_scope_identifier r) = (if team_id = None then user_id else team_id)
                 \<and> EXTERNAL_PROVIDERS cfg (ns_provider r) = Some provider \<and> ns_type r = type
                 \<and> ns_value r \<noteq> NEVER))
          \<and> (nsp_value row = OptionEnum_NEVER
               \<longleftrightarrow> (\<forall>r\<in>set (settings s).
                 ns_user_id r = user_id \<and> ns_team_id r = team_id
                 \<and> (ns_scope_type r = USER \<or> ns_scope_type r = TEAM)
                 \<and> Some (ns_scope_identifier r) = (if team_id = None then user_id else team_id)
                 \<and> EXTERNAL_PROVIDERS cfg (ns_provider r) = Some provider \<and> ns_type r = type
                 \<longrightarrow> ns_value r = NEVER)))"
proof -
  define pst where "pst = (if team_id = None then ScopeEnum_USER else ScopeEnum_TEAM)"
  from run single obtain psi where
    psi: "(if team_id = None then user_id else team_id) = Some psi"
    and rb: "rebuild cfg user_id team_id pst psi s = (None, s')"
    by (cases user_id; cases team_id)
       (auto simp: update_provider_settings_def pst_def split: if_splits)
  let ?ns = "filter (\<lambda>r. ns_user_id r = user_id \<and> ns_team_id r = team_id
                         \<and> (ns_scope_type r = USER \<or> ns_scope_type r = TEAM)) (settings s)"
  from rb obtain enabled disabled where
    cl: "classify cfg ?ns (\<lambda>t. {}, \<lambda>t. {}) = Inr (enabled, disabled)"
    and pl: "providers_loop cfg enabled disabled user_id team_id pst psi
               (PERSONAL_NOTIFICATION_PROVIDERS cfg) s = (None, s')"
    by (auto simp: rebuild_def Let_def split: sum.splits)
  let ?own = "\<lambda>r. ns_user_id r = user_id \<and> ns_team_id r = team_id
                 \<and> (ns_scope_type r = USER \<or> ns_scope_type r = TEAM)
                 \<and> Some (ns_scope_identifier r) = (if team_id = None then user_id else team_id)
                 \<and> EXTERNAL_PROVIDERS cfg (ns_provider r) = Some provider \<and> ns_type r = type"
  have keyed: "Some (ns_scope_identifier r) = (if team_id = None then user_id else team_id)"
    if "r \<in> set (settings s)" "ns_user_id r = user_id" "ns_team_id r = team_id"
      "ns_scope_type r = USER \<or> ns_scope_type r = TEAM" for r
    using that wf single by (cases user_id; cases team_id) auto
  have en: "provider \<in> enabled type \<longleftrightarrow> (\<exists>r\<in>set (settings s). ?own r \<and> ns_value r \<noteq> NEVER)"
    using classify_sets [OF cl, of provider type] keyed by auto
  have dis: "provider \<in> disabled type \<longleftrightarrow> (\<exists>r\<in>set (settings s). ?own r \<and> ns_value r = NEVER)"
    using classify_sets [OF cl, of provider type] keyed by auto
  have nd: "\<And>r. r \<in> set (settings s) \<Longrightarrow> ns_value r \<noteq> DEFAULT" using wf by blast
  let ?bq = "\<lparr>bq_provider = provider, bq_user_id = user_id, bq_team_id = team_id,
                         bq_scope_type = pst, bq_scope_identifier = psi\<rparr>"
  have key: "(\<lambda>row. nsp_provider row = provider \<and> nsp_type row = type_name
                     \<and> nsp_user_id row = user_id \<and> nsp_team_id row = team_id
                     \<and> nsp_scope_type row
                         = (if team_id = None then ScopeEnum_USER else ScopeEnum_TEAM)
                     \<and> Some (nsp_scope_identifier row)
                         = (if team_id = None then user_id else team_id))
              = provider_key ?bq type_name"
    unfolding psi by (auto simp: fun_eq_iff provider_key_def base_matches_def pst_def)
  let ?R = "filter (provider_key ?bq type_name) (providers s')"
  from providers_loop_post [OF pl inj] p ty tn
  have post: "(provider \<in> enabled type \<longrightarrow> ?R \<noteq> [] \<and> (\<forall>r\<in>set ?R. nsp_value r = OptionEnum_ALWAYS))
            \<and> (provider \<notin> enabled type \<and> provider \<in> disabled type \<longrightarrow>
                 ?R \<noteq> [] \<and> (\<forall>r\<in>set ?R. nsp_value r = OptionEnum_NEVER))
            \<and> (provider \<notin> enabled type \<and> provider \<notin> disabled type \<longrightarrow> ?R = [])"
    by blast
  have a: "?R \<noteq> [] \<longleftrightarrow> (\<exists>r\<in>set (settings s). ?own r \<and> ns_value r \<noteq> DEFAULT)"
  proof
    assume "?R \<noteq> []"
    with post have "provider \<in> enabled type \<or> provider \<in> disabled type" by blast
    with en dis nd show "\<exists>r\<in>set (settings s). ?own r \<and> ns_value r \<noteq> DEFAULT" by blast
  next
    assume "\<exists>r\<in>set (settings s). ?own r \<and> ns_value r \<noteq> DEFAULT"
    then have "provider \<in> enabled type \<or> provider \<in> disabled type" using en dis by blast
    with post show "?R \<noteq> []" by blast
  qed
  have b: "(nsp_value row = OptionEnum_ALWAYS
               \<longleftrightarrow> (\<exists>r\<in>set (settings s). ?own r \<and> ns_value r \<noteq> NEVER))
          \<and> (nsp_value row = OptionEnum_NEVER
               \<longleftrightarrow> (\<forall>r\<in>set (settings s). ?own r \<longrightarrow> ns_value r = NEVER))"
    if row: "row \<in> set ?R" for row
  proof -
    have ne: "?R \<noteq> []" using row by (metis empty_iff list.set(1))
    show ?thesis
    proof (cases "provider \<in> enabled type")
      case True
      with post row have "nsp_value row = OptionEnum_ALWAYS" by blast
      with True en show ?thesis by auto
    next
      case False
      with post ne have d: "provider \<in> disabled type" by blast
      with post False row have "nsp_value row = OptionEnum_NEVER" by blast
      with False en show ?thesis by auto
    qed
  qed
  from a b show ?thesis unfolding key by blast
qed

subsection \<open>The data model is kept by every write\<close>

text \<open>
  The condition on the settings under which the projection is characterised above
  (no stored \<open>DEFAULT\<close>; a setting of scope \<open>USER\<close> or \<open>TEAM\<close> is keyed by the id of
  its own user or team) holds of the empty table and is kept by \<^verbatim>\<open>update_settings\<close>,
  whatever its arguments and whether or not it raises.
\<close>

lemma remove_settings_subset:
  "set (settings (snd (remove_settings cfg provider type user user_id team_id project
                         organization s))) \<subseteq> set (settings s)"
  by (auto simp: remove_settings_def Let_def qs_delete_def split: sum.splits option.splits)

lemma p_update_settings_rows:
  assumes "r \<in> set (settings (snd (p_update_settings provider type v st sid u t s)))"
  shows "(\<exists>r0\<in>set (settings s). r = r0 \<or> r = r0\<lparr>ns_value := v\<rparr>)
         \<or> (ns_scope_type r = st \<and> ns_scope_identifier r = sid \<and> ns_user_id r = u
             \<and> ns_team_id r = t \<and> ns_value r = v)"
proof (cases "filter (\<lambda>r. ns_provider r = provider \<and> ns_type r = type
                        \<and> ns_scope_type r = st \<and> ns_scope_identifier r = sid
                        \<and> ns_user_id r = u \<and> ns_team_id r = t) (settings s)")
  case Nil
  then show ?thesis using assms by (auto simp: p_update_settings_def)
next
  case (Cons a rest)
  then show ?thesis using assms
    by (cases rest) (auto simp: p_update_settings_def split: if_splits)
qed

lemma update_settings_keeps_data_model:
  assumes "\<forall>r\<in>set (settings s).
               ns_value r \<noteq> DEFAULT
               \<and> (ns_scope_type r = USER \<longrightarrow> ns_user_id r = Some (ns_scope_identifier r))
               \<and> (ns_scope_type r = TEAM \<longrightarrow> ns_team_id r = Some (ns_scope_identifier r))"
  shows "\<forall>r\<in>set (settings (snd (update_settings cfg provider type v user user_id team_id
                                    project organization actor skip s))).
               ns_value r \<noteq> DEFAULT
               \<and> (ns_scope_type r = USER \<longrightarrow> ns_user_id r = Some (ns_scope_identifier r))
               \<and> (ns_scope_type r = TEAM \<longrightarrow> ns_team_id r = Some (ns_scope_identifier r))"
proof
  fix r
  assume r: "r \<in> set (settings (snd (update_settings cfg provider type v user user_id team_id
                                    project organization actor skip s)))"
  let ?P = "\<lambda>r::('a, 'b) NotificationSetting. ns_value r \<noteq> DEFAULT
               \<and> (ns_scope_type r = USER \<longrightarrow> ns_user_id r = Some (ns_scope_identifier r))
               \<and> (ns_scope_type r = TEAM \<longrightarrow> ns_team_id r = Some (ns_scope_identifier r))"
  have dw: "\<And>ty vv st sid u t z.
              settings (snd (double_write cfg ty vv st sid u t skip z)) = settings z"
    by (simp add: double_write_frame)
  have up: "?P x"
    if x: "x \<in> set (settings (snd (p_update_settings provider type v st sid u t z)))"
      and z: "\<forall>y\<in>set (settings z). ?P y" and v: "v \<noteq> DEFAULT"
      and k: "(st = USER \<longrightarrow> u = Some sid) \<and> (st = TEAM \<longrightarrow> t = Some sid)"
    for x st sid u t and z :: "('a, 'b) store"
    using p_update_settings_rows [OF x] z v k by auto
  obtain U T where unf:
    "update_settings cfg provider type v user user_id team_id project organization actor skip s
     = (case (case T of
                 Some t \<Rightarrow> Some (ActorType_TEAM, t)
               | None \<Rightarrow> (case U of
                            Some u \<Rightarrow> Some (ActorType_USER, u)
                          | None \<Rightarrow> None)) of
           None \<Rightarrow> (Some UnboundLocalError, s)
         | Some (actor_type, actor_id) \<Rightarrow>
             (let s0 = s\<lparr>analytics := analytics s @
                          [(if actor_type = ActorType_USER then ''user'' else ''team'',
                            actor_id)]\<rparr>
              in case get_scope T U project organization of
                   Inl e \<Rightarrow> (Some e, s0)
                 | Inr (scope_type, scope_identifier) \<Rightarrow>
                     and_then
                       (if v = DEFAULT
                        then remove_settings cfg provider type None U T
                               project organization s0
                        else if \<not> validate cfg type v
                        then (Some InvalidValueForTypeError, s0)
                        else if actor_type = ActorType_USER
                        then p_update_settings provider type v scope_type
                               scope_identifier (Some actor_id) None s0
                        else p_update_settings provider type v scope_type
                               scope_identifier None (Some actor_id) s0)
                       (double_write cfg type v scope_type scope_identifier
                          U T skip)))"
    by (simp add: update_settings_def Let_def)
  show "?P r"
  proof (cases T)
    case None
    note T = None
    show ?thesis
    proof (cases U)
      case None
      then show ?thesis using r assms T unfolding unf by simp
    next
      case (Some u)
      let ?s0 = "s\<lparr>analytics := analytics s @ [(''user'', u)]\<rparr>"
      have s0: "\<forall>y\<in>set (settings ?s0). ?P y" using assms by simp
      have gs: "get_scope None (Some u) project organization
                  = Inr (scope_under_parent project organization (USER, u))"
        by (simp add: get_scope_def)
      obtain st sid where sp: "scope_under_parent project organization (USER, u) = (st, sid)"
        by (cases "scope_under_parent project organization (USER, u)")
      have k: "(st = USER \<longrightarrow> Some u = Some sid) \<and> (st = TEAM \<longrightarrow> (None::int option) = Some sid)"
        using sp by (auto simp: scope_under_parent_def split: option.splits)
      show ?thesis
      proof (cases "v = DEFAULT")
        case True
        then have "r \<in> set (settings (snd (remove_settings cfg provider type None (Some u) None
                               project organization ?s0)))"
          using r T Some unfolding unf by (simp add: gs sp and_then_settings [OF dw])
        then have "r \<in> set (settings ?s0)" using remove_settings_subset by (rule rev_subsetD)
        from bspec [OF s0 this] show ?thesis .
      next
        case False
        show ?thesis
        proof (cases "validate cfg type v")
          case True
          then have "r \<in> set (settings (snd (p_update_settings provider type v st sid (Some u)
                                 None ?s0)))"
            using r T Some False unfolding unf by (simp add: gs sp and_then_settings [OF dw])
          from up [OF this s0 False k] show ?thesis .
        next
          case nv: False
          then show ?thesis
            using r T Some False assms unfolding unf
            by (simp add: gs sp and_then_settings [OF dw])
        qed
      qed
    qed
  next
    case (Some t)
    note T = Some
    show ?thesis
    proof (cases U)
      case (Some u)
      then show ?thesis using r assms T unfolding unf by (simp add: get_scope_def)
    next
      case None
      let ?s0 = "s\<lparr>analytics := analytics s @ [(''team'', t)]\<rparr>"
      have s0: "\<forall>y\<in>set (settings ?s0). ?P y" using assms by simp
      have gs: "get_scope (Some t) None project organization
                  = Inr (scope_under_parent project organization (TEAM, t))"
        by (simp add: get_scope_def)
      obtain st sid where sp: "scope_under_parent project organization (TEAM, t) = (st, sid)"
        by (cases "scope_under_parent project organization (TEAM, t)")
      have k: "(st = USER \<longrightarrow> (None::int option) = Some sid) \<and> (st = TEAM \<longrightarrow> Some t = Some sid)"
        using sp by (auto simp: scope_under_parent_def split: option.splits)
      show ?thesis
      proof (cases "v = DEFAULT")
        case True
        then have "r \<in> set (settings (snd (remove_settings cfg provider type None None (Some t)
                               project organization ?s0)))"
          using r T None unfolding unf by (simp add: gs sp and_then_settings [OF dw])
        then have "r \<in> set (settings ?s0)" using remove_settings_subset by (rule rev_subsetD)
        from bspec [OF s0 this] show ?thesis .
      next
        case False
        show ?thesis
        proof (cases "validate cfg type v")
          case True
          then have "r \<in> set (settings (snd (p_update_settings provider type v st sid None
                                 (Some t) ?s0)))"
            using r T None False unfolding unf by (simp add: gs sp and_then_settings [OF dw])
          from up [OF this s0 False k] show ?thesis .
        next
          case nv: False
          then show ?thesis
            using r T None False assms unfolding unf
            by (simp add: gs sp and_then_settings [OF dw])
        qed
      qed
    qed
  qed
qed

subsection \<open>The analytics event of a call with a team\<close>

text \<open>
  Whenever \<^verbatim>\<open>update_settings\<close> is given a team id, alone or together with a user
  id, the event it records names the team, and nothing after that touches the log.
\<close>

lemma remove_settings_analytics:
  "analytics (snd (remove_settings cfg provider type user user_id team_id project
                    organization s)) = analytics s"
  by (auto simp: remove_settings_def Let_def qs_delete_def split: sum.splits option.splits)

lemma and_then_analytics:
  assumes "\<And>z. analytics (snd (f z)) = analytics z"
  shows "analytics (snd (and_then r f)) = analytics (snd r)"
  using assms by (cases r) (auto simp: and_then_def split: option.splits)

lemma update_settings_records_team:
  "analytics (snd (update_settings cfg provider type v None user_id (Some t) project
                     organization None skip s)) = analytics s @ [(''team'', t)]"
proof -
  have dw: "\<And>ty vv st sid u tm z.
              analytics (snd (double_write cfg ty vv st sid u tm skip z)) = analytics z"
    by (simp add: double_write_frame)
  have pu: "\<And>st sid u tm z.
              analytics (snd (p_update_settings provider type v st sid u tm z)) = analytics z"
    by (simp add: p_update_settings_frame)
  show ?thesis
    by (cases "get_scope (Some t) user_id project organization")
       (auto simp: update_settings_def Let_def and_then_analytics [OF dw] pu
          remove_settings_analytics)
qed

section \<open>Evaluated instances\<close>

text \<open>
  Each result above is applied to the sample data; the statements that do not hold
  as first worded are refuted on it.
\<close>

lemmas sample_defs = sample_store_def sample_tables_def setting_row_def duplicate_store_def

lemmas run_defs =
  update_settings_def get_scope_def scope_under_parent_def validate_def
  p_update_settings_def next_id_def double_write_def option_create_or_update_def
  option_key_def update_provider_settings_def rebuild_def truthy_def
  provider_create_or_update_def provider_key_def base_matches_def
  remove_settings_def find_settings_def add_if_truthy_def p_filter_def truthy_ids_def
  column_in_def qs_delete_def qs_list_def get_settings_def Let_def

theorem remove_for_project_exact_witness:
  "(7::int) \<noteq> 0
   \<and> settings (remove_for_project 7 None sample_store) =
       [setting_row 1 EMAIL ISSUE_ALERTS USER 1 (Some 1) None ALWAYS,
        setting_row 3 SLACK WORKFLOW PROJECT 8 (Some 1) None ALWAYS,
        setting_row 4 EMAIL DEPLOY ORGANIZATION 7 (Some 1) None NEVER]"
  using remove_for_project_exact [where project_id = 7 and type = None and s = sample_store]
  by (simp add: sample_defs)

theorem falsy_filter_argument_witness:
  "settings (remove_for_project 0 None sample_store) =
       [setting_row 1 EMAIL ISSUE_ALERTS USER 1 (Some 1) None ALWAYS,
        setting_row 4 EMAIL DEPLOY ORGANIZATION 7 (Some 1) None NEVER]
   \<and> settings (remove_for_organization 0 None sample_store) =
       [setting_row 1 EMAIL ISSUE_ALERTS USER 1 (Some 1) None ALWAYS,
        setting_row 2 EMAIL ISSUE_ALERTS PROJECT 7 (Some 1) None NEVER,
        setting_row 3 SLACK WORKFLOW PROJECT 8 (Some 1) None ALWAYS]"
  using falsy_filter_argument [where type' = None and s = sample_store
      and provider = "None :: sample_provider option" and type = "None :: sample_type option"
      and scope_type = None and scope_identifier = None and user_ids = None
      and team_ids = None]
  by (simp add: sample_defs)

theorem get_settings_lookup_witness:
  "get_settings EMAIL ISSUE_ALERTS (Some 1) None (Some 7) None sample_store = Inr NEVER
   \<and> get_settings EMAIL ISSUE_ALERTS (Some 1) None (Some 9) None sample_store = Inr DEFAULT
   \<and> get_settings EMAIL ISSUE_ALERTS (Some 1) None (Some 7) None
        (sample_store\<lparr>settings := rev (settings sample_store)\<rparr>) = Inr NEVER"
proof -
  have a: "(Some 1 = Some (1::int) \<and> (None::int option) = None)
           \<or> (Some 1 = (None::int option) \<and> (None::int option) = Some 1)" by simp
  have g7: "get_scope None (Some 1) (Some 7) None = Inr (PROJECT, 7)"
    by (simp add: get_scope_def scope_under_parent_def)
  have g9: "get_scope None (Some 1) (Some 9) None = Inr (PROJECT, 9)"
    by (simp add: get_scope_def scope_under_parent_def)
  have same: "set (settings (sample_store\<lparr>settings := rev (settings sample_store)\<rparr>))
                = set (settings sample_store)" by simp
  note t7 = get_settings_lookup [OF a g7, of EMAIL ISSUE_ALERTS sample_store]
  note t9 = get_settings_lookup [OF a g9, of EMAIL ISSUE_ALERTS sample_store]
  have v7: "get_settings EMAIL ISSUE_ALERTS (Some 1) None (Some 7) None sample_store = Inr NEVER"
    using t7 by (simp add: sample_defs)
  have v9: "get_settings EMAIL ISSUE_ALERTS (Some 1) None (Some 9) None sample_store
              = Inr DEFAULT"
    using t9 by (simp add: sample_defs)
  have agree: "\<forall>a\<in>set (settings sample_store). \<forall>b\<in>set (settings sample_store).
              (ns_provider a = EMAIL \<and> ns_type a = ISSUE_ALERTS \<and> ns_scope_type a = PROJECT
               \<and> ((7::int) \<noteq> 0 \<longrightarrow> ns_scope_identifier a = 7)
               \<and> (if (None::int option) = None then ns_user_id a = Some 1
                   else ns_team_id a = Some 1))
              \<and> (ns_provider b = EMAIL \<and> ns_type b = ISSUE_ALERTS \<and> ns_scope_type b = PROJECT
               \<and> ((7::int) \<noteq> 0 \<longrightarrow> ns_scope_identifier b = 7)
               \<and> (if (None::int option) = None then ns_user_id b = Some 1
                   else ns_team_id b = Some 1))
              \<longrightarrow> ns_value a = ns_value b"
    by (simp add: sample_defs)
  from t7 agree same
  have "get_settings EMAIL ISSUE_ALERTS (Some 1) None (Some 7) None
          (sample_store\<lparr>settings := rev (settings sample_store)\<rparr>)
        = get_settings EMAIL ISSUE_ALERTS (Some 1) None (Some 7) None sample_store"
    by blast
  with v7 v9 show ?thesis by simp
qed

text \<open>
  Two settings of one key: \<^verbatim>\<open>get_settings\<close> returns the value of the row that comes
  first, here the one of id 5 and not the one of id 1, and the other value when the
  same rows come in the other order. For the user id 0 it raises where no setting
  matches.
\<close>

theorem row_order_counterexample:
  "get_settings EMAIL ISSUE_ALERTS (Some 1) None None None duplicate_store = Inr NEVER
   \<and> get_settings EMAIL ISSUE_ALERTS (Some 1) None None None
        (duplicate_store\<lparr>settings := rev (settings duplicate_store)\<rparr>) = Inr ALWAYS
   \<and> get_settings EMAIL ISSUE_ALERTS (Some 0) None None None sample_store
        = Inl AssertionError"
  by (simp add: run_defs sample_defs)

theorem single_recipient_required_witness:
  "find_settings EMAIL ISSUE_ALERTS (Some 1) (Some 2) None None = Inl AssertionError
   \<and> get_settings EMAIL ISSUE_ALERTS None None (Some 7) None sample_store = Inl AssertionError
   \<and> fst (remove_settings sample_tables EMAIL ISSUE_ALERTS None (Some 1) (Some 2) None None
            sample_store) \<noteq> None
   \<and> settings (snd (remove_settings sample_tables EMAIL ISSUE_ALERTS None (Some 1) (Some 2)
                       None None sample_store)) = settings sample_store
   \<and> update_settings sample_tables EMAIL ISSUE_ALERTS ALWAYS None None None (Some 7) None None
        False sample_store = (Some UnboundLocalError, sample_store)"
proof -
  have b: "(truthy (Some 1) \<and> truthy (Some 2)) \<or> (\<not> truthy (Some 1) \<and> \<not> truthy (Some 2))"
    by (simp add: truthy_def)
  have n: "(truthy None \<and> truthy None) \<or> (\<not> truthy None \<and> \<not> truthy None)"
    by (simp add: truthy_def)
  from single_recipient_required [OF b, where provider = EMAIL and type = ISSUE_ALERTS
        and project = None and organization = None and s = sample_store
        and cfg = sample_tables and skip = False and value' = ALWAYS]
      single_recipient_required [OF n, where provider = EMAIL and type = ISSUE_ALERTS
        and project = "Some 7" and organization = None and s = sample_store
        and cfg = sample_tables and skip = False and value' = ALWAYS]
  show ?thesis by auto
qed

text \<open>
  The errors for the recipient arguments are not \<open>InvalidScopeError\<close>, and
  \<^verbatim>\<open>update_settings\<close> with both ids has taken the team and recorded the event for it.
\<close>

theorem recipient_error_counterexample:
  "find_settings EMAIL ISSUE_ALERTS (Some 1) (Some 2) None None \<noteq> Inl InvalidScopeError
   \<and> get_settings EMAIL ISSUE_ALERTS None None None None sample_store \<noteq> Inl InvalidScopeError
   \<and> fst (update_settings sample_tables EMAIL ISSUE_ALERTS ALWAYS None None None None None None
            False sample_store) \<noteq> Some InvalidScopeError
   \<and> analytics (snd (update_settings sample_tables EMAIL ISSUE_ALERTS ALWAYS None (Some 1)
                        (Some 2) None None None False sample_store)) = [(''team'', 2)]"
proof -
  have "analytics (snd (update_settings sample_tables EMAIL ISSUE_ALERTS ALWAYS None (Some 1)
                        (Some 2) None None None False sample_store))
          = analytics sample_store @ [(''team'', 2)]"
    by (rule update_settings_records_team)
  then show ?thesis
    by (simp add: find_settings_def get_settings_def add_if_truthy_def update_settings_def
        sample_store_def)
qed

theorem invalid_value_rejected_witness:
  "SUBSCRIBE_ONLY \<noteq> DEFAULT \<and> \<not> validate sample_tables ISSUE_ALERTS SUBSCRIBE_ONLY
   \<and> fst (update_settings sample_tables EMAIL ISSUE_ALERTS SUBSCRIBE_ONLY None (Some 1) None
             (Some 7) None None False sample_store) = Some InvalidValueForTypeError
   \<and> settings (snd (update_settings sample_tables EMAIL ISSUE_ALERTS SUBSCRIBE_ONLY None
                       (Some 1) None (Some 7) None None False sample_store))
       = settings sample_store
   \<and> providers (snd (update_settings sample_tables EMAIL ISSUE_ALERTS SUBSCRIBE_ONLY None
                       (Some 1) None (Some 7) None None False sample_store)) = []"
proof -
  have d: "SUBSCRIBE_ONLY \<noteq> DEFAULT" by simp
  have v: "\<not> validate sample_tables ISSUE_ALERTS SUBSCRIBE_ONLY"
    by (simp add: validate_def sample_tables_def)
  show ?thesis
    using d v invalid_value_rejected [OF d v, where provider = EMAIL
        and user_id = "Some 1" and team_id = None and project = "Some 7"
        and organization = None and skip = False and s = sample_store]
    by (auto simp: sample_store_def)
qed

theorem reset_to_default_witness:
  "get_settings EMAIL ISSUE_ALERTS (Some 1) None (Some 7) None sample_store = Inr NEVER
   \<and> fst (update_settings sample_tables EMAIL ISSUE_ALERTS DEFAULT None (Some 1) None
             (Some 7) None None False sample_store) = None
   \<and> get_settings EMAIL ISSUE_ALERTS (Some 1) None (Some 7) None
        (snd (update_settings sample_tables EMAIL ISSUE_ALERTS DEFAULT None (Some 1) None
                (Some 7) None None False sample_store)) = Inr DEFAULT"
proof -
  have f: "fst (update_settings sample_tables EMAIL ISSUE_ALERTS DEFAULT None (Some 1) None
             (Some 7) None None False sample_store) = None"
    by (simp add: run_defs sample_defs)
  have g: "get_settings EMAIL ISSUE_ALERTS (Some 1) None (Some 7) None sample_store = Inr NEVER"
    by (simp add: run_defs sample_defs)
  have rc: "(Some 1 = Some (1::int) \<and> (None::int option) = None)
            \<or> (Some 1 = (None::int option) \<and> (None::int option) = Some 1)" by simp
  have n: "(1::int) \<noteq> 0" by simp
  have gs: "get_scope None (Some 1) (Some 7) None = Inr (PROJECT, 7)"
    by (simp add: get_scope_def scope_under_parent_def)
  have nm: "NOTIFICATION_SCOPE_TYPE sample_tables PROJECT = Some ''project''"
    by (simp add: sample_tables_def)
  from reset_to_default [OF rc n gs nm, of EMAIL ISSUE_ALERTS False sample_store] f g
  show ?thesis by simp
qed

theorem update_settings_twice_witness:
  "fst (update_settings sample_tables SLACK ISSUE_ALERTS ALWAYS None (Some 1) None None None
          None False sample_store) = None
   \<and> fst (update_settings sample_tables SLACK ISSUE_ALERTS ALWAYS None (Some 1) None None None
          None False
          (snd (update_settings sample_tables SLACK ISSUE_ALERTS ALWAYS None (Some 1) None None
                  None None False sample_store))) = None
   \<and> settings (snd (update_settings sample_tables SLACK ISSUE_ALERTS ALWAYS None (Some 1) None
          None None None False
          (snd (update_settings sample_tables SLACK ISSUE_ALERTS ALWAYS None (Some 1) None None
                  None None False sample_store))))
     = settings (snd (update_settings sample_tables SLACK ISSUE_ALERTS ALWAYS None (Some 1) None
                  None None None False sample_store))"
proof -
  have f: "fst (update_settings sample_tables SLACK ISSUE_ALERTS ALWAYS None (Some 1) None None
             None None False sample_store) = None"
    by (simp add: run_defs sample_defs)
  then have r: "update_settings sample_tables SLACK ISSUE_ALERTS ALWAYS None (Some 1) None
             None None None False sample_store
              = (None, snd (update_settings sample_tables SLACK ISSUE_ALERTS ALWAYS None
                              (Some 1) None None None None False sample_store))"
    by (metis prod.collapse)
  have d: "ALWAYS \<noteq> DEFAULT" by simp
  from update_settings_twice [OF r d] f show ?thesis by auto
qed

text \<open>
  Two equal calls of \<^verbatim>\<open>update_settings\<close> record the analytics event twice: the log
  after the second call differs from the log after the first.
\<close>

theorem update_settings_twice_event_counterexample:
  "analytics (snd (update_settings sample_tables SLACK ISSUE_ALERTS ALWAYS None (Some 1) None
                     None None None False sample_store)) = [(''user'', 1)]
   \<and> analytics (snd (update_settings sample_tables SLACK ISSUE_ALERTS ALWAYS None (Some 1) None
          None None None False
          (snd (update_settings sample_tables SLACK ISSUE_ALERTS ALWAYS None (Some 1) None None
                  None None False sample_store)))) = [(''user'', 1), (''user'', 1)]"
  by (simp add: run_defs sample_defs)

theorem parent_scope_wins_witness:
  "effective_value sample_tables ''alerts'' EMAIL (ActorType_USER, 1) (USER, 1) sample_store
     = ALWAYS
   \<and> (\<exists>m. filter_to_accepting_recipients sample_tables (Project 7 3) [(ActorType_USER, 1)]
              (Some ISSUE_ALERTS) sample_store = Inr m
            \<and> (ActorType_USER, 1) \<notin> set (m EMAIL))"
proof -
  have t: "NOTIFICATION_SETTING_TYPES sample_tables ISSUE_ALERTS = Some ''alerts''"
    by (simp add: sample_tables_def)
  have r: "records_at sample_tables ''alerts'' EMAIL (ActorType_USER, 1)
             (natural_tier (Project 7 3), parent_id (Project 7 3)) sample_store
           = setting_row 2 EMAIL ISSUE_ALERTS PROJECT 7 (Some 1) None NEVER # []"
    by (simp add: records_at_def owned_by_def sample_defs)
  have g: "effective_value sample_tables ''alerts'' EMAIL (ActorType_USER, 1) (USER, 1)
             sample_store = ALWAYS"
    by (simp add: effective_value_def records_at_def owned_by_def own_scope_def sample_defs)
  from parent_scope_wins [OF t r, of "[(ActorType_USER, 1)]"] g show ?thesis
    by (auto simp: setting_row_def)
qed

theorem get_for_recipient_by_parent_query_witness:
  "\<exists>q. get_for_recipient_by_parent sample_tables ISSUE_ALERTS (Project 7 3)
          [(ActorType_USER, 1)] = Inr q
       \<and> q = spec_for_recipient_by_parent ISSUE_ALERTS (Project 7 3) [(ActorType_USER, 1)]
       \<and> qs_list q sample_store =
           [setting_row 1 EMAIL ISSUE_ALERTS USER 1 (Some 1) None ALWAYS,
            setting_row 2 EMAIL ISSUE_ALERTS PROJECT 7 (Some 1) None NEVER]"
proof -
  have ne: "[(ActorType_USER, 1::int)] \<noteq> []" by simp
  have t: "get_scope_type sample_tables ISSUE_ALERTS = Inr PROJECT"
    by (simp add: sample_tables_def)
  have n: "PROJECT = natural_tier (Project 7 3)" by simp
  from get_for_recipient_by_parent_query [of sample_tables ISSUE_ALERTS "Project 7 3"
      "[(ActorType_USER, 1)]" PROJECT] ne t n
  obtain q where q: "get_for_recipient_by_parent sample_tables ISSUE_ALERTS (Project 7 3)
          [(ActorType_USER, 1)] = Inr q"
    and s: "q = spec_for_recipient_by_parent ISSUE_ALERTS (Project 7 3) [(ActorType_USER, 1)]"
    by blast
  have "qs_list (spec_for_recipient_by_parent ISSUE_ALERTS (Project 7 3) [(ActorType_USER, 1)])
          sample_store =
           [setting_row 1 EMAIL ISSUE_ALERTS USER 1 (Some 1) None ALWAYS,
            setting_row 2 EMAIL ISSUE_ALERTS PROJECT 7 (Some 1) None NEVER]"
    by (simp add: qs_list_def spec_for_recipient_by_parent_def ids_of_def id_in_def sample_defs)
  with q s show ?thesis by simp
qed

text \<open>
  For the organization 7 and an alert type of the project tier, the query selects the
  setting scoped to the project 7, which the query worded with the natural tier of
  the parent does not.
\<close>

theorem parent_tier_counterexample:
  "get_for_recipient_by_parent sample_tables ISSUE_ALERTS (Organization 7)
       [(ActorType_USER, 1)]
     \<noteq> Inr (spec_for_recipient_by_parent ISSUE_ALERTS (Organization 7) [(ActorType_USER, 1)])
   \<and> map_sum id (\<lambda>q. qs_list q sample_store)
       (get_for_recipient_by_parent sample_tables ISSUE_ALERTS (Organization 7)
          [(ActorType_USER, 1)])
     = Inr [setting_row 1 EMAIL ISSUE_ALERTS USER 1 (Some 1) None ALWAYS,
            setting_row 2 EMAIL ISSUE_ALERTS PROJECT 7 (Some 1) None NEVER]
   \<and> qs_list (spec_for_recipient_by_parent ISSUE_ALERTS (Organization 7) [(ActorType_USER, 1)])
       sample_store
     = [setting_row 1 EMAIL ISSUE_ALERTS USER 1 (Some 1) None ALWAYS]"
proof -
  have a: "map_sum id (\<lambda>q. qs_list q sample_store)
       (get_for_recipient_by_parent sample_tables ISSUE_ALERTS (Organization 7)
          [(ActorType_USER, 1)])
     = Inr [setting_row 1 EMAIL ISSUE_ALERTS USER 1 (Some 1) None ALWAYS,
            setting_row 2 EMAIL ISSUE_ALERTS PROJECT 7 (Some 1) None NEVER]"
    by (simp add: get_for_recipient_by_parent_def qs_list_def ids_of_def id_in_def sample_defs)
  have b: "qs_list (spec_for_recipient_by_parent ISSUE_ALERTS (Organization 7)
             [(ActorType_USER, 1)]) sample_store
     = [setting_row 1 EMAIL ISSUE_ALERTS USER 1 (Some 1) None ALWAYS]"
    by (simp add: qs_list_def spec_for_recipient_by_parent_def ids_of_def id_in_def sample_defs)
  have "get_for_recipient_by_parent sample_tables ISSUE_ALERTS (Organization 7)
       [(ActorType_USER, 1)]
     \<noteq> Inr (spec_for_recipient_by_parent ISSUE_ALERTS (Organization 7) [(ActorType_USER, 1)])"
  proof
    assume "get_for_recipient_by_parent sample_tables ISSUE_ALERTS (Organization 7)
       [(ActorType_USER, 1)]
     = Inr (spec_for_recipient_by_parent ISSUE_ALERTS (Organization 7) [(ActorType_USER, 1)])"
    with a b show False by (simp add: setting_row_def)
  qed
  with a b show ?thesis by blast
qed

theorem projection_invariant_witness:
  "fst (update_provider_settings sample_tables (Some 1) None sample_store) = None
   \<and> providers (snd (update_provider_settings sample_tables (Some 1) None sample_store))
       = [\<lparr>nsp_provider = ''email'', nsp_type = ''alerts'', nsp_scope_type = ScopeEnum_USER,
           nsp_scope_identifier = 1, nsp_user_id = Some 1, nsp_team_id = None,
           nsp_value = OptionEnum_ALWAYS\<rparr>]
   \<and> filter (\<lambda>row. nsp_provider row = ''email'' \<and> nsp_type row = ''alerts''
                     \<and> nsp_user_id row = Some 1 \<and> nsp_team_id row = None
                     \<and> nsp_scope_type row = ScopeEnum_USER
                     \<and> Some (nsp_scope_identifier row) = Some 1)
        (providers (snd (update_provider_settings sample_tables (Some 1) None sample_store)))
       \<noteq> []
   \<and> filter (\<lambda>row. nsp_provider row = ''slack'' \<and> nsp_type row = ''workflow''
                     \<and> nsp_user_id row = Some 1 \<and> nsp_team_id row = None
                     \<and> nsp_scope_type row = ScopeEnum_USER
                     \<and> Some (nsp_scope_identifier row) = Some 1)
        (providers (snd (update_provider_settings sample_tables (Some 1) None sample_store)))
       = []"
proof -
  let ?s' = "snd (update_provider_settings sample_tables (Some 1) None sample_store)"
  have f: "fst (update_provider_settings sample_tables (Some 1) None sample_store) = None"
    by (simp add: run_defs sample_defs)
  then have run: "update_provider_settings sample_tables (Some 1) None sample_store = (None, ?s')"
    by (metis prod.collapse)
  have pv: "providers ?s'
       = [\<lparr>nsp_provider = ''email'', nsp_type = ''alerts'', nsp_scope_type = ScopeEnum_USER,
           nsp_scope_identifier = 1, nsp_user_id = Some 1, nsp_team_id = None,
           nsp_value = OptionEnum_ALWAYS\<rparr>]"
    by (simp add: run_defs sample_defs)
  have single: "(Some (1::int) = None) \<noteq> ((None::int option) = None)" by simp
  have p1: "''email'' \<in> set (PERSONAL_NOTIFICATION_PROVIDERS sample_tables)"
    and p2: "''slack'' \<in> set (PERSONAL_NOTIFICATION_PROVIDERS sample_tables)"
    by (simp_all add: sample_tables_def)
  have t1: "ISSUE_ALERTS \<in> fst ` set (VALID_VALUES_FOR_KEY_V2 sample_tables)"
    and t2: "WORKFLOW \<in> fst ` set (VALID_VALUES_FOR_KEY_V2 sample_tables)"
    by (simp_all add: sample_tables_def)
  have n1: "NOTIFICATION_SETTING_TYPES sample_tables ISSUE_ALERTS = Some ''alerts''"
    and n2: "NOTIFICATION_SETTING_TYPES sample_tables WORKFLOW = Some ''workflow''"
    by (simp_all add: sample_tables_def)
  have inj: "inj_on (NOTIFICATION_SETTING_TYPES sample_tables)
               (fst ` set (VALID_VALUES_FOR_KEY_V2 sample_tables))"
    by (simp add: sample_tables_def)
  have wf: "\<forall>r\<in>set (settings sample_store).
               ns_value r \<noteq> DEFAULT
               \<and> (ns_scope_type r = USER \<longrightarrow> ns_user_id r = Some (ns_scope_identifier r))
               \<and> (ns_scope_type r = TEAM \<longrightarrow> ns_team_id r = Some (ns_scope_identifier r))"
    by (simp add: sample_defs)
  from projection_invariant [OF run single p1 t1 n1 inj wf]
  have a: "filter (\<lambda>row. nsp_provider row = ''email'' \<and> nsp_type row = ''alerts''
                     \<and> nsp_user_id row = Some 1 \<and> nsp_team_id row = None
                     \<and> nsp_scope_type row = ScopeEnum_USER
                     \<and> Some (nsp_scope_identifier row) = Some 1) (providers ?s') \<noteq> []"
    by (simp add: sample_defs)
  from projection_invariant [OF run single p2 t2 n2 inj wf]
  have b: "filter (\<lambda>row. nsp_provider row = ''slack'' \<and> nsp_type row = ''workflow''
                     \<and> nsp_user_id row = Some 1 \<and> nsp_team_id row = None
                     \<and> nsp_scope_type row = ScopeEnum_USER
                     \<and> Some (nsp_scope_identifier row) = Some 1) (providers ?s') = []"
    by (simp add: sample_defs)
  from f pv a b show ?thesis by blast
qed

end
